theory Spec2Isabelle
  imports Complex_Main "HOL-Library.AList"
begin

section \<open>JavaScript values of the query layer\<close>

text \<open>
  The query layer (\<^verbatim>\<open>utils/queryParser.js\<close>) works on plain JavaScript values. A raw
  query is what the HTTP layer hands over: strings, arrays, nested objects, and the
  booleans, numbers and nulls that callers add programmatically. It is modelled by
  \<open>json\<close>. Objects are association lists in insertion order. A string is a list of
  8-bit code units; numbers are the integers (the safe-integer range of the source, where
  its double arithmetic is exact).

  A filter handed to the storage collaborator can also hold native identifiers and dates;
  it is modelled by \<open>fval\<close>. \<open>FObjectId s\<close> stands for \<^verbatim>\<open>new Types.ObjectId(s)\<close> and
  \<open>FDate s\<close> for \<^verbatim>\<open>new Date(s)\<close>.
\<close>

datatype json =
    JNull
  | JBool bool
  | JNum int
  | JStr string
  | JArr "json list"
  | JObj "(string \<times> json) list"

datatype fval =
    FNull
  | FBool bool
  | FNum int
  | FStr string
  | FArr "fval list"
  | FObj "(string \<times> fval) list"
  | FObjectId string
  | FDate string

type_synonym mongo_filter = "(string \<times> fval) list"

fun lift :: "json \<Rightarrow> fval" where
  "lift JNull = FNull"
| "lift (JBool b) = FBool b"
| "lift (JNum n) = FNum n"
| "lift (JStr s) = FStr s"
| "lift (JArr xs) = FArr (map lift xs)"
| "lift (JObj kvs) = FObj (map (\<lambda>(k, v). (k, lift v)) kvs)"

text \<open>Truthiness of a raw value, as in \<^verbatim>\<open>if (this.query.search)\<close>.\<close>

fun truthy :: "json \<Rightarrow> bool" where
  "truthy JNull = False"
| "truthy (JBool b) = b"
| "truthy (JNum n) = (n \<noteq> 0)"
| "truthy (JStr s) = (s \<noteq> [])"
| "truthy (JArr xs) = True"
| "truthy (JObj kvs) = True"

subsection \<open>Strings\<close>

text \<open>\<^verbatim>\<open>s.split(sep)\<close> for a one-character separator, and \<^verbatim>\<open>xs.join(sep)\<close>.\<close>

fun str_split_acc :: "char \<Rightarrow> string \<Rightarrow> string \<Rightarrow> string list" where
  "str_split_acc sep acc [] = [rev acc]"
| "str_split_acc sep acc (c # cs) =
     (if c = sep then rev acc # str_split_acc sep [] cs else str_split_acc sep (c # acc) cs)"

definition str_split :: "char \<Rightarrow> string \<Rightarrow> string list" where
  "str_split sep s = str_split_acc sep [] s"

fun str_join :: "string \<Rightarrow> string list \<Rightarrow> string" where
  "str_join sep [] = []"
| "str_join sep [x] = x"
| "str_join sep (x # y # ys) = x @ sep @ str_join sep (y # ys)"

text \<open>
  \<^verbatim>\<open>s.toLowerCase()\<close> on 8-bit code units: the letters A to Z and the upper-case letters
  of the Latin-1 block move up by 32.
\<close>

definition lower_char :: "char \<Rightarrow> char" where
  "lower_char c =
     (let n = (of_char c :: nat) in
      if (65 \<le> n \<and> n \<le> 90) \<or> (192 \<le> n \<and> n \<le> 222 \<and> n \<noteq> 215)
      then char_of (n + 32) else c)"

definition toLowerCase :: "string \<Rightarrow> string" where
  "toLowerCase s = map lower_char s"

text \<open>\<^verbatim>\<open>s.includes(t)\<close>: \<open>t\<close> occurs in \<open>s\<close> as a contiguous substring.\<close>

fun str_includes :: "string \<Rightarrow> string \<Rightarrow> bool" where
  "str_includes [] t = (t = [])"
| "str_includes (c # cs) t = (take (length t) (c # cs) = t \<or> str_includes cs t)"

subsection \<open>Numbers as text\<close>

fun show_nat :: "nat \<Rightarrow> string" where
  "show_nat n =
     (if n < 10 then [''0123456789'' ! n]
      else show_nat (n div 10) @ [''0123456789'' ! (n mod 10)])"

declare show_nat.simps [simp del]

definition show_int :: "int \<Rightarrow> string" where
  "show_int n = (if n < 0 then CHR ''-'' # show_nat (nat (- n)) else show_nat (nat n))"

text \<open>
  \<open>ToString\<close> is the conversion \<^verbatim>\<open>parseInt\<close> applies to its argument. Inside an array,
  \<^verbatim>\<open>null\<close> prints as the empty string.
\<close>

fun ToString :: "json \<Rightarrow> string" where
  "ToString JNull = ''null''"
| "ToString (JBool b) = (if b then ''true'' else ''false'')"
| "ToString (JNum n) = show_int n"
| "ToString (JStr s) = s"
| "ToString (JArr xs) = str_join '','' (map (\<lambda>x. if x = JNull then [] else ToString x) xs)"
| "ToString (JObj kvs) = ''[object Object]''"

text \<open>
  \<open>digit_of c\<close> is the value of \<open>c\<close> as a digit, and 36 (above every radix) when \<open>c\<close>
  is not one.
\<close>

definition digit_of :: "char \<Rightarrow> nat" where
  "digit_of c =
     (let n = (of_char c :: nat) in
      if 48 \<le> n \<and> n \<le> 57 then n - 48
      else if 97 \<le> n \<and> n \<le> 122 then n - 87
      else if 65 \<le> n \<and> n \<le> 90 then n - 55
      else 36)"

definition is_space :: "char \<Rightarrow> bool" where
  "is_space c = ((of_char c :: nat) \<in> {9, 10, 11, 12, 13, 32, 160})"

text \<open>
  \<^verbatim>\<open>parseInt(s)\<close> with no radix: leading white space is skipped, a sign is read, a
  \<^verbatim>\<open>0x\<close> prefix switches to radix 16, and the longest run of digits is the value.
  No digit at all gives \<^verbatim>\<open>NaN\<close>, which is \<open>None\<close> here.
\<close>

definition parseInt :: "string \<Rightarrow> int option" where
  "parseInt s =
     (let s1 = dropWhile is_space s;
          neg = (take 1 s1 = ''-'');
          s2 = (if take 1 s1 = ''-'' \<or> take 1 s1 = ''+'' then drop 1 s1 else s1);
          hex = (take 2 s2 = ''0x'' \<or> take 2 s2 = ''0X'');
          R = (if hex then 16 else 10);
          s3 = (if hex then drop 2 s2 else s2);
          z = takeWhile (\<lambda>c. digit_of c < R) s3;
          m = foldl (\<lambda>a c. a * int R + int (digit_of c)) (0 :: int) z
      in if z = [] then None else Some (if neg then - m else m))"

text \<open>\<^verbatim>\<open>parseInt(x) || d\<close>: the default replaces \<^verbatim>\<open>NaN\<close> and 0.\<close>

definition or_default :: "int option \<Rightarrow> int \<Rightarrow> int" where
  "or_default r d = (case r of None \<Rightarrow> d | Some n \<Rightarrow> if n = 0 then d else n)"

text \<open>
  \<^verbatim>\<open>parseInt(this.query.page)\<close>: an absent key is \<^verbatim>\<open>undefined\<close>, which parses to
  \<^verbatim>\<open>NaN\<close>.
\<close>

definition parseInt_field :: "(string \<times> json) list \<Rightarrow> string \<Rightarrow> int option" where
  "parseInt_field q k = (case map_of q k of None \<Rightarrow> None | Some v \<Rightarrow> parseInt (ToString v))"

text \<open>
  The result of \<^verbatim>\<open>Math.ceil(a / b)\<close> on integers: the quotient rounded up, and the
  non-finite values of a division by zero.
\<close>

datatype jsnum = Fin int | NaN | PosInf | NegInf

definition Math_ceil_quot :: "int \<Rightarrow> int \<Rightarrow> jsnum" where
  "Math_ceil_quot a b =
     (if b = 0 then (if 0 < a then PosInf else if a < 0 then NegInf else NaN)
      else Fin \<lceil>rat_of_int a / rat_of_int b\<rceil>)"

text \<open>\<^verbatim>\<open>n < x\<close> for an integer \<open>n\<close>; every comparison with \<^verbatim>\<open>NaN\<close> is false.\<close>

fun js_less :: "int \<Rightarrow> jsnum \<Rightarrow> bool" where
  "js_less n (Fin m) = (n < m)"
| "js_less n NaN = False"
| "js_less n PosInf = True"
| "js_less n NegInf = False"

section \<open>The storage collaborator\<close>

text \<open>
  The query layer reaches the database only through a Mongoose model: a find query, a
  count and an aggregation. The model is a parameter of everything below; \<open>'d\<close> is the
  type of documents and \<open>'s\<close> the type of session handles.
\<close>

datatype sort_options = SortObj "(string \<times> int) list" | SortStr string

datatype populate_field = PopPath string | PopSpec string "string option"

datatype stage =
    Match mongo_filter
  | Lookup fval
  | Unwind fval
  | AddFields "(string \<times> fval) list"
  | Project "(string \<times> fval) list"
  | Sort "(string \<times> fval) list"
  | Skip int
  | Limit int

record find_call =
  fc_filter :: mongo_filter
  fc_sort :: "sort_options option"
  fc_select :: "string option"
  fc_skip :: int
  fc_limit :: int
  fc_populate :: "(string \<times> string option) list"

record ('d, 's) Model =
  find_exec :: "find_call \<Rightarrow> 'd list"
  countDocuments :: "mongo_filter \<Rightarrow> 's option \<Rightarrow> int"
  aggregate_exec :: "stage list \<Rightarrow> 's option \<Rightarrow> 'd list"

section \<open>Pagination results\<close>

text \<open>
  The \<^verbatim>\<open>pagination\<close> object of a result. The page of \<open>UniversalQueryBuilder\<close> is a
  quotient and need not be an integer, so the type of \<open>page\<close> is a parameter.
\<close>

record 'p pagination =
  page :: 'p
  limit :: int
  total_count :: int
  pages :: jsnum
  hasNext :: bool
  hasPrev :: bool

record ('d, 'p) page_result =
  data :: "'d list"
  pagination :: "'p pagination"

section \<open>QueryParser\<close>

record pagination_options =
  po_page :: int
  po_limit :: int
  po_skip :: int

text \<open>
  The state of a \<open>QueryParser\<close>. \<open>paginationOptions\<close> is \<open>None\<close> while it is still the
  empty object of the constructor.
\<close>

record QueryParser =
  query :: "(string \<times> json) list"
  excludeFields :: "string list"
  mongoQuery :: mongo_filter
  sortOptions :: sort_options
  selectFields :: string
  paginationOptions :: "pagination_options option"
  populateFields :: "populate_field list"

definition default_excludeFields :: "string list" where
  "default_excludeFields = [''page'', ''limit'', ''sort'', ''fields'']"

definition new_QueryParser :: "(string \<times> json) list \<Rightarrow> string list \<Rightarrow> QueryParser" where
  "new_QueryParser q excl =
     \<lparr>query = q, excludeFields = excl, mongoQuery = [], sortOptions = SortObj [],
      selectFields = [], paginationOptions = None, populateFields = []\<rparr>"

definition createQueryParser :: "(string \<times> json) list \<Rightarrow> string list option \<Rightarrow> QueryParser" where
  "createQueryParser q excl =
     new_QueryParser q (case excl of None \<Rightarrow> default_excludeFields | Some e \<Rightarrow> e)"

subsection \<open>paginate\<close>

definition paginate :: "QueryParser \<Rightarrow> QueryParser" where
  "paginate qp =
     (let page = or_default (parseInt_field (query qp) ''page'') 1;
          limit = or_default (parseInt_field (query qp) ''limit'') 10;
          skip = (page - 1) * limit
      in qp\<lparr>paginationOptions :=
              Some \<lparr>po_page = page, po_limit = min limit 100, po_skip = skip\<rparr>\<rparr>)"

subsection \<open>execute\<close>

definition populate_calls :: "populate_field list \<Rightarrow> (string \<times> string option) list" where
  "populate_calls fs =
     concat (map (\<lambda>f. case f of
                      PopPath p \<Rightarrow> [(p, None)]
                    | PopSpec p sel \<Rightarrow>
                        if p \<noteq> [] then [(p, Some (case sel of None \<Rightarrow> [] | Some s \<Rightarrow> s))] else [])
                 fs)"

text \<open>The \<^verbatim>\<open>pagination\<close> object literal of \<open>QueryParser.execute\<close>.\<close>

definition qp_pagination :: "int \<Rightarrow> int \<Rightarrow> int \<Rightarrow> int pagination" where
  "qp_pagination p l t =
     \<lparr>page = p, limit = l, total_count = t,
      pages = Math_ceil_quot t l,
      hasNext = js_less p (Math_ceil_quot t l),
      hasPrev = (1 < p)\<rparr>"

text \<open>
  \<open>execute\<close> runs the find query and the count on the same filter. It is modelled for a
  parser on which \<open>paginate\<close> has run, as in every call chain of the services; on a parser
  with the constructor's empty \<open>paginationOptions\<close> the page and the limit are
  \<^verbatim>\<open>undefined\<close>, and the model gives \<open>None\<close>.
\<close>

definition execute :: "('d, 's) Model \<Rightarrow> QueryParser \<Rightarrow> ('d, int) page_result option" where
  "execute M qp =
     (case paginationOptions qp of
        None \<Rightarrow> None
      | Some po \<Rightarrow>
          let call = \<lparr>fc_filter = mongoQuery qp,
                      fc_sort = (if sortOptions qp = SortStr [] then None else Some (sortOptions qp)),
                      fc_select = (if selectFields qp = [] then None else Some (selectFields qp)),
                      fc_skip = po_skip po,
                      fc_limit = po_limit po,
                      fc_populate = populate_calls (populateFields qp)\<rparr>;
              rows = find_exec M call;
              total = countDocuments M (mongoQuery qp) None
          in Some \<lparr>data = rows, pagination = qp_pagination (po_page po) (po_limit po) total\<rparr>)"

section \<open>UniversalQueryBuilder\<close>

record ('d, 's) UniversalQueryBuilder =
  uqb_model :: "('d, 's) Model"
  uqb_pipeline :: "stage list"
  uqb_session :: "'s option"

definition new_UniversalQueryBuilder :: "('d, 's) Model \<Rightarrow> ('d, 's) UniversalQueryBuilder" where
  "new_UniversalQueryBuilder M = \<lparr>uqb_model = M, uqb_pipeline = [], uqb_session = None\<rparr>"

definition uqb_push :: "stage list \<Rightarrow> ('d, 's) UniversalQueryBuilder \<Rightarrow> ('d, 's) UniversalQueryBuilder" where
  "uqb_push ss b = b\<lparr>uqb_pipeline := uqb_pipeline b @ ss\<rparr>"

definition uqb_setSession :: "'s option \<Rightarrow> ('d, 's) UniversalQueryBuilder \<Rightarrow> ('d, 's) UniversalQueryBuilder" where
  "uqb_setSession s b = b\<lparr>uqb_session := s\<rparr>"

definition uqb_match :: "stage list \<Rightarrow> ('d, 's) UniversalQueryBuilder \<Rightarrow> ('d, 's) UniversalQueryBuilder" where
  "uqb_match filters b = (if 0 < length filters then uqb_push filters b else b)"

definition uqb_lookup :: "fval \<Rightarrow> ('d, 's) UniversalQueryBuilder \<Rightarrow> ('d, 's) UniversalQueryBuilder" where
  "uqb_lookup lookupConfig b = uqb_push [Lookup lookupConfig] b"

definition uqb_unwind :: "fval \<Rightarrow> ('d, 's) UniversalQueryBuilder \<Rightarrow> ('d, 's) UniversalQueryBuilder" where
  "uqb_unwind unwindConfig b = uqb_push [Unwind unwindConfig] b"

definition uqb_addFields :: "(string \<times> fval) list \<Rightarrow> ('d, 's) UniversalQueryBuilder \<Rightarrow> ('d, 's) UniversalQueryBuilder" where
  "uqb_addFields flds b = (if flds \<noteq> [] then uqb_push [AddFields flds] b else b)"

definition uqb_project :: "(string \<times> fval) list \<Rightarrow> ('d, 's) UniversalQueryBuilder \<Rightarrow> ('d, 's) UniversalQueryBuilder" where
  "uqb_project flds b = (if flds \<noteq> [] then uqb_push [Project flds] b else b)"

definition uqb_sortBy :: "(string \<times> fval) list \<Rightarrow> ('d, 's) UniversalQueryBuilder \<Rightarrow> ('d, 's) UniversalQueryBuilder" where
  "uqb_sortBy srt b = (if srt \<noteq> [] then uqb_push [Sort srt] b else b)"

definition uqb_paginate :: "int \<Rightarrow> int \<Rightarrow> ('d, 's) UniversalQueryBuilder \<Rightarrow> ('d, 's) UniversalQueryBuilder" where
  "uqb_paginate p l b = (let skip = (p - 1) * l in uqb_push [Skip skip, Limit l] b)"

definition uqb_addStage :: "stage \<Rightarrow> ('d, 's) UniversalQueryBuilder \<Rightarrow> ('d, 's) UniversalQueryBuilder" where
  "uqb_addStage st b = uqb_push [st] b"

definition uqb_aggregate :: "('d, 's) UniversalQueryBuilder \<Rightarrow> 'd list" where
  "uqb_aggregate b = aggregate_exec (uqb_model b) (uqb_pipeline b) (uqb_session b)"

definition uqb_countDocuments :: "('d, 's) UniversalQueryBuilder \<Rightarrow> mongo_filter \<Rightarrow> int" where
  "uqb_countDocuments b f = countDocuments (uqb_model b) f (uqb_session b)"

text \<open>
  The properties \<^verbatim>\<open>p.$skip\<close>, \<^verbatim>\<open>p.$limit\<close> and \<^verbatim>\<open>p.$match\<close> of a stage (\<open>None\<close> is
  \<^verbatim>\<open>undefined\<close>), and the searches \<^verbatim>\<open>pipeline.find(p => p.$skip)\<close>, which stop at the
  first stage whose property is truthy: a number other than 0, or any filter object.
\<close>

fun skip_prop :: "stage \<Rightarrow> int option" where
  "skip_prop (Skip n) = Some n"
| "skip_prop _ = None"

fun limit_prop :: "stage \<Rightarrow> int option" where
  "limit_prop (Limit n) = Some n"
| "limit_prop _ = None"

fun match_prop :: "stage \<Rightarrow> mongo_filter option" where
  "match_prop (Match f) = Some f"
| "match_prop _ = None"

definition truthy_num :: "int option \<Rightarrow> bool" where
  "truthy_num x = (case x of None \<Rightarrow> False | Some n \<Rightarrow> n \<noteq> 0)"

definition find_skip :: "stage list \<Rightarrow> stage option" where
  "find_skip pl = find (\<lambda>p. truthy_num (skip_prop p)) pl"

definition find_limit :: "stage list \<Rightarrow> stage option" where
  "find_limit pl = find (\<lambda>p. truthy_num (limit_prop p)) pl"

definition find_match :: "stage list \<Rightarrow> stage option" where
  "find_match pl = find (\<lambda>p. match_prop p \<noteq> None) pl"

text \<open>\<^verbatim>\<open>matchStage?.$match || {}\<close>\<close>

definition match_filter_or_empty :: "stage list \<Rightarrow> mongo_filter" where
  "match_filter_or_empty pl =
     (case Option.bind (find_match pl) match_prop of None \<Rightarrow> [] | Some f \<Rightarrow> f)"

text \<open>
  \<^verbatim>\<open>find(p => p.$skip)?.$skip / find(p => p.$limit)?.$limit + 1 || 1\<close>: when either
  search finds nothing the quotient is \<^verbatim>\<open>NaN\<close> and the page is 1. When the limit divides
  the skip, the quotient is an integer and the arithmetic is exact; a sum of 0 is falsy
  and gives 1 as well. When it does not, the page is a double that is not computed here:
  \<open>Inexact skip limit\<close> stands for it.
\<close>

datatype page_value = Whole int | Inexact int int

definition uqb_page :: "stage list \<Rightarrow> page_value" where
  "uqb_page pl =
     (case (Option.bind (find_skip pl) skip_prop, Option.bind (find_limit pl) limit_prop) of
        (Some s, Some l) \<Rightarrow>
          if s mod l = 0 then (let q = s div l + 1 in if q = 0 then Whole 1 else Whole q)
          else Inexact s l
      | _ \<Rightarrow> Whole 1)"

text \<open>\<^verbatim>\<open>find(p => p.$limit)?.$limit || 20\<close>\<close>

definition uqb_limit :: "stage list \<Rightarrow> int" where
  "uqb_limit pl = (case Option.bind (find_limit pl) limit_prop of None \<Rightarrow> 20 | Some l \<Rightarrow> l)"

text \<open>
  The \<^verbatim>\<open>pagination\<close> object literal of \<open>UniversalQueryBuilder.exec\<close>. On a page that is
  not an integer the two comparisons are made in double arithmetic and follow its
  rounding; what they give is a parameter, the record \<open>double_host\<close>.
\<close>

record double_host =
  inexact_hasNext :: "int \<Rightarrow> int \<Rightarrow> int \<Rightarrow> bool"
  inexact_hasPrev :: "int \<Rightarrow> int \<Rightarrow> bool"

definition uqb_pagination :: "double_host \<Rightarrow> page_value \<Rightarrow> int \<Rightarrow> int \<Rightarrow> page_value pagination" where
  "uqb_pagination dh pv l t =
     \<lparr>page = pv, limit = l, total_count = t,
      pages = Math_ceil_quot t l,
      hasNext = (case pv of Whole p \<Rightarrow> p * l < t | Inexact s d \<Rightarrow> inexact_hasNext dh s d t),
      hasPrev = (case pv of Whole p \<Rightarrow> 1 < p | Inexact s d \<Rightarrow> inexact_hasPrev dh s d)\<rparr>"

record ('d, 'p) exec_result =
  ex_data :: "'d list"
  ex_pagination :: "'p pagination option"

definition uqb_exec ::
  "double_host \<Rightarrow> ('d, 's) UniversalQueryBuilder \<Rightarrow> bool \<Rightarrow> ('d, page_value) exec_result" where
  "uqb_exec dh b paged =
     (let rows = uqb_aggregate b in
      if paged then
        let p = uqb_page (uqb_pipeline b);
            l = uqb_limit (uqb_pipeline b);
            total = uqb_countDocuments b (match_filter_or_empty (uqb_pipeline b))
        in \<lparr>ex_data = rows, ex_pagination = Some (uqb_pagination dh p l total)\<rparr>
      else \<lparr>ex_data = rows, ex_pagination = None\<rparr>)"

section \<open>UniversalPipelineBuilder\<close>

text \<open>
  The page and the limit of the builder are integers: \<open>setPagination\<close>, which parses
  them from its argument, is not part of the model.
\<close>

record ('d, 's) UniversalPipelineBuilder =
  upb_model :: "('d, 's) Model"
  upb_pipeline :: "stage list"
  upb_session :: "'s option"
  upb_page :: int
  upb_limit :: int
  upb_sort :: "(string \<times> fval) list"

definition new_UniversalPipelineBuilder :: "('d, 's) Model \<Rightarrow> ('d, 's) UniversalPipelineBuilder" where
  "new_UniversalPipelineBuilder M =
     \<lparr>upb_model = M, upb_pipeline = [], upb_session = None, upb_page = 1, upb_limit = 20,
      upb_sort = [(''createdAt'', FNum (- 1))]\<rparr>"

definition upb_push :: "stage list \<Rightarrow> ('d, 's) UniversalPipelineBuilder \<Rightarrow> ('d, 's) UniversalPipelineBuilder" where
  "upb_push ss b = b\<lparr>upb_pipeline := upb_pipeline b @ ss\<rparr>"

definition upb_setMatchStages :: "stage list \<Rightarrow> ('d, 's) UniversalPipelineBuilder \<Rightarrow> ('d, 's) UniversalPipelineBuilder" where
  "upb_setMatchStages matchStages b = upb_push matchStages b"

definition upb_setSession :: "'s option \<Rightarrow> ('d, 's) UniversalPipelineBuilder \<Rightarrow> ('d, 's) UniversalPipelineBuilder" where
  "upb_setSession s b = b\<lparr>upb_session := s\<rparr>"

definition upb_setSort :: "(string \<times> fval) list \<Rightarrow> ('d, 's) UniversalPipelineBuilder \<Rightarrow> ('d, 's) UniversalPipelineBuilder" where
  "upb_setSort srt b = (if srt \<noteq> [] then b\<lparr>upb_sort := srt\<rparr> else b)"

record lookup_spec =
  ls_from :: string
  ls_localField :: string
  ls_foreignField :: string
  ls_as :: string
  ls_unwind :: bool

definition lookup_stages :: "lookup_spec \<Rightarrow> stage list" where
  "lookup_stages ls =
     Lookup (FObj [(''from'', FStr (ls_from ls)), (''localField'', FStr (ls_localField ls)),
                   (''foreignField'', FStr (ls_foreignField ls)), (''as'', FStr (ls_as ls))])
     # (if ls_unwind ls
        then [Unwind (FObj [(''path'', FStr (CHR ''$'' # ls_as ls)),
                            (''preserveNullAndEmptyArrays'', FBool True)])]
        else [])"

definition upb_addLookups :: "lookup_spec list \<Rightarrow> ('d, 's) UniversalPipelineBuilder \<Rightarrow> ('d, 's) UniversalPipelineBuilder" where
  "upb_addLookups lookups b = upb_push (concat (map lookup_stages lookups)) b"

definition upb_addFields :: "(string \<times> fval) list \<Rightarrow> ('d, 's) UniversalPipelineBuilder \<Rightarrow> ('d, 's) UniversalPipelineBuilder" where
  "upb_addFields flds b = (if flds \<noteq> [] then upb_push [AddFields flds] b else b)"

definition upb_addProject :: "(string \<times> fval) list \<Rightarrow> ('d, 's) UniversalPipelineBuilder \<Rightarrow> ('d, 's) UniversalPipelineBuilder" where
  "upb_addProject flds b = (if flds \<noteq> [] then upb_push [Project flds] b else b)"

definition upb_addStages :: "stage list \<Rightarrow> ('d, 's) UniversalPipelineBuilder \<Rightarrow> ('d, 's) UniversalPipelineBuilder" where
  "upb_addStages stages b = upb_push stages b"

text \<open>The \<^verbatim>\<open>pagination\<close> object literal of \<open>UniversalPipelineBuilder.exec\<close>.\<close>

definition upb_pagination :: "int \<Rightarrow> int \<Rightarrow> int \<Rightarrow> int pagination" where
  "upb_pagination p l t =
     \<lparr>page = p, limit = l, total_count = t,
      pages = Math_ceil_quot t l,
      hasNext = (p * l < t),
      hasPrev = (1 < p)\<rparr>"

text \<open>
  \<open>exec\<close> appends the sort and the window to the builder's own pipeline before it runs,
  so it returns the builder as well. Without pagination the result is the bare row list
  (\<open>ex_pagination\<close> is \<open>None\<close>).
\<close>

definition upb_exec :: "('d, 's) UniversalPipelineBuilder \<Rightarrow> bool \<Rightarrow> ('d, int) exec_result \<times> ('d, 's) UniversalPipelineBuilder" where
  "upb_exec b paged =
     (let b1 = upb_push [Sort (upb_sort b)] b;
          b2 = (if paged
                then (let skip = (upb_page b1 - 1) * upb_limit b1
                      in upb_push [Skip skip, Limit (upb_limit b1)] b1)
                else b1);
          rows = aggregate_exec (upb_model b2) (upb_pipeline b2) (upb_session b2);
          total = countDocuments (upb_model b2) (match_filter_or_empty (upb_pipeline b2)) (upb_session b2)
      in (if paged
          then \<lparr>ex_data = rows, ex_pagination = Some (upb_pagination (upb_page b2) (upb_limit b2) total)\<rparr>
          else \<lparr>ex_data = rows, ex_pagination = None\<rparr>,
          b2))"

section \<open>JSON text\<close>

text \<open>
  \<open>QueryParser.filter\<close> goes through the JSON text of the query:
  \<^verbatim>\<open>JSON.stringify\<close>, a regular-expression replacement on the text, and \<^verbatim>\<open>JSON.parse\<close>.
  The three steps are modelled on the text itself, a list of characters.
\<close>

datatype js_error = SyntaxError | TypeError

abbreviation (input) dquote :: char where
  "dquote \<equiv> CHR 0x22"

abbreviation (input) bslash :: char where
  "bslash \<equiv> CHR 0x5C"

subsection \<open>JSON.stringify\<close>

definition escape_char :: "char \<Rightarrow> string" where
  "escape_char c =
     (let n = (of_char c :: nat) in
      if c = dquote then [bslash, dquote]
      else if c = bslash then [bslash, bslash]
      else if n = 8 then [bslash, CHR ''b'']
      else if n = 12 then [bslash, CHR ''f'']
      else if n = 10 then [bslash, CHR ''n'']
      else if n = 13 then [bslash, CHR ''r'']
      else if n = 9 then [bslash, CHR ''t'']
      else if n < 32 then [bslash, CHR ''u'', CHR ''0'', CHR ''0'',
                            ''0123456789abcdef'' ! (n div 16), ''0123456789abcdef'' ! (n mod 16)]
      else [c])"

definition quote_string :: "string \<Rightarrow> string" where
  "quote_string s = dquote # concat (map escape_char s) @ [dquote]"

fun JSON_stringify :: "json \<Rightarrow> string" where
  "JSON_stringify JNull = ''null''"
| "JSON_stringify (JBool b) = (if b then ''true'' else ''false'')"
| "JSON_stringify (JNum n) = show_int n"
| "JSON_stringify (JStr s) = quote_string s"
| "JSON_stringify (JArr xs) = ''['' @ str_join '','' (map JSON_stringify xs) @ '']''"
| "JSON_stringify (JObj kvs) =
     ''{'' @ str_join '','' (map (\<lambda>(k, v). quote_string k @ '':'' @ JSON_stringify v) kvs) @ ''}''"

subsection \<open>The operator replacement\<close>

text \<open>
  \<^verbatim>\<open>queryStr.replace(/\b(gte|gt|lte|lt|in|nin|ne|regex)\b/g, match => `$${match}`)\<close>.
  A word character is a letter, a digit or the underscore; \<^verbatim>\<open>\b\<close> holds between two
  positions of which exactly one is a word character. The search runs from left to right;
  at a position where the pattern matches, a dollar sign and the match are written and the
  search resumes behind the match.
\<close>

definition is_word :: "char \<Rightarrow> bool" where
  "is_word c =
     (let n = (of_char c :: nat) in
      (48 \<le> n \<and> n \<le> 57) \<or> (65 \<le> n \<and> n \<le> 90) \<or> (97 \<le> n \<and> n \<le> 122) \<or> n = 95)"

definition operator_alternatives :: "string list" where
  "operator_alternatives = [''gte'', ''gt'', ''lte'', ''lt'', ''in'', ''nin'', ''ne'', ''regex'']"

text \<open>\<open>boundary pw rest\<close>: \<^verbatim>\<open>\b\<close> before \<open>rest\<close>, where \<open>pw\<close> tells whether the character
  before it is a word character (\<open>False\<close> at the start of the text).\<close>

definition boundary :: "bool \<Rightarrow> string \<Rightarrow> bool" where
  "boundary pw rest = (pw \<noteq> (case rest of [] \<Rightarrow> False | c # cs \<Rightarrow> is_word c))"

definition match_operator :: "bool \<Rightarrow> string \<Rightarrow> string option" where
  "match_operator pw rest =
     (if boundary pw rest
      then find (\<lambda>a. a \<noteq> [] \<and> take (length a) rest = a
                       \<and> boundary (is_word (last a)) (drop (length a) rest))
             operator_alternatives
      else None)"

function replace_operators :: "bool \<Rightarrow> string \<Rightarrow> string" where
  "replace_operators pw [] = []"
| "replace_operators pw (c # cs) =
     (case match_operator pw (c # cs) of
        Some a \<Rightarrow> CHR ''$'' # a @ replace_operators (is_word (last a)) (drop (length a) (c # cs))
      | None \<Rightarrow> c # replace_operators (is_word c) cs)"
  by pat_completeness auto
termination
proof (relation "measure (\<lambda>(pw, s). length s)")
  show "wf (measure (\<lambda>(pw, s). length s))" by simp
next
  fix pw c cs a
  assume "match_operator pw (c # cs) = Some a"
  then have "a \<noteq> []"
    by (auto simp add: match_operator_def find_Some_iff split: if_splits)
  then show "((is_word (last a), drop (length a) (c # cs)), (pw, c # cs)) \<in> measure (\<lambda>(pw, s). length s)"
    by (cases a) simp_all
next
  fix pw c cs
  show "((is_word c, cs), (pw, c # cs)) \<in> measure (\<lambda>(pw, s). length s)" by simp
qed

subsection \<open>JSON.parse\<close>

text \<open>
  The text is cut into tokens, and the tokens are read by a machine with a stack of the
  containers that are open. Numbers are integers. A \<^verbatim>\<open>\u\<close> escape denotes a code unit;
  the model has the 8-bit ones. Every failure is a \<open>SyntaxError\<close>.
\<close>

datatype token =
    TLBrace | TRBrace | TLBracket | TRBracket | TColon | TComma
  | TString string | TNumber int | TTrue | TFalse | TNull

definition unescape :: "char \<Rightarrow> char option" where
  "unescape e =
     (if e = dquote then Some dquote
      else if e = bslash then Some bslash
      else if e = CHR ''/'' then Some CHR ''/''
      else if e = CHR ''b'' then Some (CHR 0x08)
      else if e = CHR ''f'' then Some (CHR 0x0C)
      else if e = CHR ''n'' then Some (CHR 0x0A)
      else if e = CHR ''r'' then Some (CHR 0x0D)
      else if e = CHR ''t'' then Some (CHR 0x09)
      else None)"

definition hex4 :: "char \<Rightarrow> char \<Rightarrow> char \<Rightarrow> char \<Rightarrow> char option" where
  "hex4 a b c d =
     (if digit_of a < 16 \<and> digit_of b < 16 \<and> digit_of c < 16 \<and> digit_of d < 16
         \<and> digit_of a = 0 \<and> digit_of b = 0
      then Some (char_of (digit_of c * 16 + digit_of d))
      else None)"

text \<open>\<open>lex_string acc s\<close> reads the body of a string literal up to its closing quote.\<close>

fun lex_string :: "string \<Rightarrow> string \<Rightarrow> (string \<times> string) option" where
  "lex_string acc [] = None"
| "lex_string acc [c] = (if c = dquote then Some (rev acc, []) else None)"
| "lex_string acc (c # e # cs) =
     (if c = dquote then Some (rev acc, e # cs)
      else if c = bslash then
        (if e = CHR ''u'' then
           (case cs of
              h1 # h2 # h3 # h4 # rest \<Rightarrow>
                (case hex4 h1 h2 h3 h4 of
                   Some ch \<Rightarrow> lex_string (ch # acc) rest
                 | None \<Rightarrow> None)
            | _ \<Rightarrow> None)
         else
           (case unescape e of
              Some ch \<Rightarrow> lex_string (ch # acc) cs
            | None \<Rightarrow> None))
      else if (of_char c :: nat) < 32 then None
      else lex_string (c # acc) (e # cs))"

definition is_digit :: "char \<Rightarrow> bool" where
  "is_digit c = (digit_of c < 10)"

definition digits_value :: "string \<Rightarrow> int" where
  "digits_value ds = foldl (\<lambda>a c. a * 10 + int (digit_of c)) 0 ds"

text \<open>\<open>lex_number s\<close> reads \<^verbatim>\<open>-?(0|[1-9][0-9]*)\<close> at the head of \<open>s\<close>.\<close>

definition lex_digits :: "string \<Rightarrow> (int \<times> string) option" where
  "lex_digits s =
     (case s of
        [] \<Rightarrow> None
      | c # cs \<Rightarrow>
          if c = CHR ''0'' then Some (0, cs)
          else if is_digit c then Some (digits_value (takeWhile is_digit s), dropWhile is_digit s)
          else None)"

definition lex_number :: "string \<Rightarrow> (int \<times> string) option" where
  "lex_number s =
     (case s of
        [] \<Rightarrow> None
      | c # cs \<Rightarrow>
          if c = CHR ''-'' then map_option (\<lambda>(n, r). (- n, r)) (lex_digits cs)
          else lex_digits s)"

definition json_space :: "char \<Rightarrow> bool" where
  "json_space c = ((of_char c :: nat) \<in> {9, 10, 13, 32})"

function lex :: "string \<Rightarrow> token list option" where
  "lex [] = Some []"
| "lex (c # cs) =
     (if c = CHR ''{'' then map_option (Cons TLBrace) (lex cs)
      else if c = CHR ''}'' then map_option (Cons TRBrace) (lex cs)
      else if c = CHR ''['' then map_option (Cons TLBracket) (lex cs)
      else if c = CHR '']'' then map_option (Cons TRBracket) (lex cs)
      else if c = CHR '':'' then map_option (Cons TColon) (lex cs)
      else if c = CHR '','' then map_option (Cons TComma) (lex cs)
      else if json_space c then lex cs
      else if c = dquote then
        (case lex_string [] cs of
           None \<Rightarrow> None
         | Some (s, rest) \<Rightarrow> map_option (Cons (TString s)) (lex rest))
      else if c = CHR ''-'' \<or> is_digit c then
        (case lex_number (c # cs) of
           None \<Rightarrow> None
         | Some (n, rest) \<Rightarrow> map_option (Cons (TNumber n)) (lex rest))
      else if take 4 (c # cs) = ''true'' then map_option (Cons TTrue) (lex (drop 3 cs))
      else if take 5 (c # cs) = ''false'' then map_option (Cons TFalse) (lex (drop 4 cs))
      else if take 4 (c # cs) = ''null'' then map_option (Cons TNull) (lex (drop 3 cs))
      else None)"
  by pat_completeness auto

lemma lex_string_shorter:
  "lex_string acc s = Some (r, rest) \<Longrightarrow> length rest < length s"
  by (induction acc s rule: lex_string.induct)
     (auto split: if_splits list.splits option.splits, force+)

lemma lex_digits_shorter:
  "lex_digits s = Some (n, rest) \<Longrightarrow> length rest < length s"
  by (cases s)
     (auto simp add: lex_digits_def less_Suc_eq_le length_dropWhile_le split: if_splits)

lemma lex_number_shorter:
  "lex_number s = Some (n, rest) \<Longrightarrow> length rest < length s"
  by (cases s)
     (auto simp add: lex_number_def less_Suc_eq dest!: lex_digits_shorter split: if_splits)

termination lex
proof (relation "measure length")
  fix c cs x s rest
  assume "lex_string [] cs = Some x" and "(s, rest) = x"
  then have "length rest < length cs"
    using lex_string_shorter [of "[]" cs s rest] by simp
  then show "(rest, c # cs) \<in> measure length" by simp
next
  fix c cs x n rest
  assume "lex_number (c # cs) = Some x" and "(n, rest) = x"
  then have "length rest < length (c # cs)"
    using lex_number_shorter [of "c # cs" n rest] by simp
  then show "(rest, c # cs) \<in> measure length" by simp
qed simp_all

text \<open>
  The machine. A context is an open container that waits for a value: an array with the
  elements read so far (latest first), or an object with its members read so far and the
  key whose value comes next.
\<close>

datatype ctx = InArr "json list" | InObj "(string \<times> json) list" string

datatype pstate =
    Value "ctx list"
  | ArrFirst "ctx list"
  | ArrNext "json list" "ctx list"
  | ObjFirst "ctx list"
  | ObjKey "(string \<times> json) list" "ctx list"
  | ObjColon "(string \<times> json) list" string "ctx list"
  | ObjNext "(string \<times> json) list" "ctx list"
  | Done json

text \<open>A repeated key keeps its first position and takes the last value.\<close>

definition make_object :: "(string \<times> json) list \<Rightarrow> json" where
  "make_object members = JObj (foldl (\<lambda>al (k, v). AList.update k v al) [] members)"

fun deliver :: "json \<Rightarrow> ctx list \<Rightarrow> pstate" where
  "deliver v [] = Done v"
| "deliver v (InArr acc # st) = ArrNext (v # acc) st"
| "deliver v (InObj acc k # st) = ObjNext ((k, v) # acc) st"

fun scalar :: "token \<Rightarrow> json option" where
  "scalar (TString s) = Some (JStr s)"
| "scalar (TNumber n) = Some (JNum n)"
| "scalar TTrue = Some (JBool True)"
| "scalar TFalse = Some (JBool False)"
| "scalar TNull = Some JNull"
| "scalar _ = None"

definition value_step :: "ctx list \<Rightarrow> token \<Rightarrow> pstate option" where
  "value_step st t =
     (if t = TLBracket then Some (ArrFirst st)
      else if t = TLBrace then Some (ObjFirst st)
      else map_option (\<lambda>v. deliver v st) (scalar t))"

fun step :: "pstate \<Rightarrow> token \<Rightarrow> pstate option" where
  "step (Value st) t = value_step st t"
| "step (ArrFirst st) t =
     (if t = TRBracket then Some (deliver (JArr []) st) else value_step (InArr [] # st) t)"
| "step (ArrNext acc st) t =
     (if t = TComma then Some (Value (InArr acc # st))
      else if t = TRBracket then Some (deliver (JArr (rev acc)) st)
      else None)"
| "step (ObjFirst st) t =
     (case t of
        TRBrace \<Rightarrow> Some (deliver (JObj []) st)
      | TString k \<Rightarrow> Some (ObjColon [] k st)
      | _ \<Rightarrow> None)"
| "step (ObjKey acc st) t = (case t of TString k \<Rightarrow> Some (ObjColon acc k st) | _ \<Rightarrow> None)"
| "step (ObjColon acc k st) t = (if t = TColon then Some (Value (InObj acc k # st)) else None)"
| "step (ObjNext acc st) t =
     (if t = TComma then Some (ObjKey acc st)
      else if t = TRBrace then Some (deliver (make_object (rev acc)) st)
      else None)"
| "step (Done v) t = None"

fun run :: "pstate \<Rightarrow> token list \<Rightarrow> pstate option" where
  "run s [] = Some s"
| "run s (t # ts) = (case step s t of None \<Rightarrow> None | Some s' \<Rightarrow> run s' ts)"

definition JSON_parse :: "string \<Rightarrow> js_error + json" where
  "JSON_parse text =
     (case lex text of
        None \<Rightarrow> Inl SyntaxError
      | Some ts \<Rightarrow>
          (case run (Value []) ts of
             Some (Done v) \<Rightarrow> Inr v
           | _ \<Rightarrow> Inl SyntaxError))"

subsection \<open>The outermost container\<close>

text \<open>
  \<open>outer_object s\<close>: the container that was opened first is an object. It is an invariant
  of the machine, used below to show that the text of a query parses to an object.
\<close>

fun obj_ctx :: "ctx \<Rightarrow> bool" where
  "obj_ctx (InObj acc k) = True"
| "obj_ctx (InArr acc) = False"

fun outer_object :: "pstate \<Rightarrow> bool" where
  "outer_object (Value st) = (st \<noteq> [] \<and> obj_ctx (last st))"
| "outer_object (ArrFirst st) = (st \<noteq> [] \<and> obj_ctx (last st))"
| "outer_object (ArrNext acc st) = (st \<noteq> [] \<and> obj_ctx (last st))"
| "outer_object (ObjFirst st) = (st = [] \<or> obj_ctx (last st))"
| "outer_object (ObjKey acc st) = (st = [] \<or> obj_ctx (last st))"
| "outer_object (ObjColon acc k st) = (st = [] \<or> obj_ctx (last st))"
| "outer_object (ObjNext acc st) = (st = [] \<or> obj_ctx (last st))"
| "outer_object (Done v) = (case v of JObj m \<Rightarrow> True | _ \<Rightarrow> False)"

section \<open>The host: identifiers and dates\<close>

text \<open>
  Two library functions decide coercions: \<^verbatim>\<open>Types.ObjectId.isValid\<close> and the \<^verbatim>\<open>Date\<close>
  constructor. Both have a part that every version shares and a part that depends on the
  installed library or engine; the second part is a parameter, the record \<open>runtime\<close>.

  A string is a valid identifier when it consists of 24 hexadecimal digits; older drivers
  also accept any string of 12 bytes (\<open>objectid_legacy\<close>).

  A string gives a valid date when it is in the date-time string format of the language
  standard (\<^verbatim>\<open>YYYY\<close>, \<^verbatim>\<open>YYYY-MM\<close>, \<^verbatim>\<open>YYYY-MM-DD\<close>, each optionally followed by
  \<^verbatim>\<open>THH:mm\<close>, \<^verbatim>\<open>THH:mm:ss\<close> or \<^verbatim>\<open>THH:mm:ss.sss\<close> and an offset) with a date that
  exists. A year is written with four digits, or with a sign and six digits; of the signed
  years only those from -271820 to 275759 count, whose every instant is in the range of
  \<^verbatim>\<open>Date\<close>. Which other strings an engine accepts is up to the engine (\<open>date_fallback\<close>).
\<close>

record runtime =
  date_fallback :: "string \<Rightarrow> bool"
  objectid_legacy :: bool

definition ObjectId_isValid :: "runtime \<Rightarrow> string \<Rightarrow> bool" where
  "ObjectId_isValid rt s =
     ((length s = 24 \<and> list_all (\<lambda>c. digit_of c < 16) s)
      \<or> (length s = 12 \<and> list_all (\<lambda>c. (of_char c :: nat) < 128) s \<and> objectid_legacy rt))"

definition digits_n :: "nat \<Rightarrow> string \<Rightarrow> int option" where
  "digits_n n s = (if length s = n \<and> list_all is_digit s then Some (digits_value s) else None)"

definition days_in_month :: "int \<Rightarrow> int \<Rightarrow> int" where
  "days_in_month y m =
     (if m = 2 then (if (y mod 4 = 0 \<and> y mod 100 \<noteq> 0) \<or> y mod 400 = 0 then 29 else 28)
      else if m \<in> {4, 6, 9, 11} then 30 else 31)"

definition iso_date :: "string \<Rightarrow> bool" where
  "iso_date s =
     (let signed = (take 1 s = ''+'' \<or> take 1 s = ''-'');
          ys = (if signed then take 6 (drop 1 s) else take 4 s);
          rest = (if signed then drop 7 s else drop 4 s);
          y = (if take 1 s = ''-'' then - digits_value ys else digits_value ys);
          year_ok = (list_all is_digit ys \<and> length ys = (if signed then 6 else 4)
                     \<and> take 7 s \<noteq> ''-000000''
                     \<and> (if signed then - 271820 \<le> y \<and> y \<le> 275759 else True))
      in year_ok \<and>
         (rest = [] \<or>
          (take 1 rest = ''-'' \<and>
           (case digits_n 2 (take 2 (drop 1 rest)) of
              None \<Rightarrow> False
            | Some m \<Rightarrow>
                1 \<le> m \<and> m \<le> 12 \<and>
                (drop 3 rest = [] \<or>
                 (take 1 (drop 3 rest) = ''-'' \<and>
                  (case digits_n 2 (drop 4 rest) of
                     None \<Rightarrow> False
                   | Some d \<Rightarrow> 1 \<le> d \<and> d \<le> days_in_month y m)))))))"

definition iso_hhmm :: "string \<Rightarrow> bool" where
  "iso_hhmm s =
     (case (digits_n 2 (take 2 s), digits_n 2 (drop 3 s)) of
        (Some h, Some m) \<Rightarrow> take 1 (drop 2 s) = '':'' \<and> h \<le> 23 \<and> m \<le> 59
      | _ \<Rightarrow> False)"

definition iso_offset :: "string \<Rightarrow> bool" where
  "iso_offset s =
     (s = [] \<or> s = ''Z'' \<or> ((take 1 s = ''+'' \<or> take 1 s = ''-'') \<and> iso_hhmm (drop 1 s)))"

definition iso_time :: "string \<Rightarrow> bool" where
  "iso_time s =
     (iso_hhmm (take 5 s) \<and>
      (let r = drop 5 s in
       iso_offset r \<or>
       (take 1 r = '':'' \<and>
        (case digits_n 2 (take 2 (drop 1 r)) of None \<Rightarrow> False | Some sec \<Rightarrow> sec \<le> 59) \<and>
        (let r2 = drop 3 r in
         iso_offset r2 \<or>
         (take 1 r2 = ''.'' \<and> digits_n 3 (take 3 (drop 1 r2)) \<noteq> None \<and> iso_offset (drop 4 r2))))))"

definition iso_date_time :: "string \<Rightarrow> bool" where
  "iso_date_time s =
     (case dropWhile (\<lambda>c. c \<noteq> CHR ''T'') s of
        [] \<Rightarrow> iso_date s
      | t # time \<Rightarrow> iso_date (takeWhile (\<lambda>c. c \<noteq> CHR ''T'') s) \<and> iso_time time)"

section \<open>QueryParser: the filter\<close>

subsection \<open>isValidDate and handleDateRanges\<close>

definition isValidDate :: "runtime \<Rightarrow> string \<Rightarrow> bool" where
  "isValidDate rt dateString = (iso_date_time dateString \<or> date_fallback rt dateString)"

definition range_operators :: "string list" where
  "range_operators = [''$gte'', ''$gt'', ''$lte'', ''$lt'']"

text \<open>
  The inner loop of \<open>handleDateRanges\<close> on one value of the filter. Only a plain object has
  keys that can be range operators.
\<close>

definition date_range_value :: "runtime \<Rightarrow> fval \<Rightarrow> fval" where
  "date_range_value rt v =
     (case v of
        FObj ops \<Rightarrow>
          FObj (map (\<lambda>(operator, dateValue).
                       (operator,
                        if operator \<in> set range_operators
                        then (case dateValue of
                                FStr s \<Rightarrow> if isValidDate rt s then FDate s else dateValue
                              | _ \<Rightarrow> dateValue)
                        else dateValue))
                    ops)
      | _ \<Rightarrow> v)"

definition handleDateRanges :: "runtime \<Rightarrow> QueryParser \<Rightarrow> QueryParser" where
  "handleDateRanges rt qp =
     qp\<lparr>mongoQuery := map (\<lambda>(key, v). (key, date_range_value rt v)) (mongoQuery qp)\<rparr>"

subsection \<open>handleSpecialQueries\<close>

fun truthy_f :: "fval \<Rightarrow> bool" where
  "truthy_f FNull = False"
| "truthy_f (FBool b) = b"
| "truthy_f (FNum n) = (n \<noteq> 0)"
| "truthy_f (FStr s) = (s \<noteq> [])"
| "truthy_f _ = True"

text \<open>\<^verbatim>\<open>typeof v === 'object'\<close>, which holds of \<^verbatim>\<open>null\<close> too.\<close>

fun typeof_object :: "fval \<Rightarrow> bool" where
  "typeof_object (FBool b) = False"
| "typeof_object (FNum n) = False"
| "typeof_object (FStr s) = False"
| "typeof_object _ = True"

text \<open>The property \<open>v.name\<close> of a value other than \<^verbatim>\<open>null\<close>; \<open>None\<close> is \<^verbatim>\<open>undefined\<close>.\<close>

fun get_prop :: "fval \<Rightarrow> string \<Rightarrow> fval option" where
  "get_prop (FObj m) name = map_of m name"
| "get_prop _ name = None"

definition truthy_prop :: "fval \<Rightarrow> string \<Rightarrow> bool" where
  "truthy_prop v name = (case get_prop v name of None \<Rightarrow> False | Some x \<Rightarrow> truthy_f x)"

text \<open>
  The body of the loop of \<open>handleSpecialQueries\<close> for one key. Each of the four rules
  tests the value that was read at the start and overwrites the entry, so a later rule
  wins. Reading \<^verbatim>\<open>value.$regex\<close> of \<^verbatim>\<open>null\<close> throws a \<open>TypeError\<close>.
\<close>

definition special_value :: "runtime \<Rightarrow> string \<Rightarrow> fval \<Rightarrow> js_error + fval" where
  "special_value rt key v =
     (let v1 = (case v of
                  FStr s \<Rightarrow>
                    if str_includes s '','' then FObj [(''$in'', FArr (map FStr (str_split CHR '','' s)))]
                    else v
                | _ \<Rightarrow> v);
          v2 = (case v of
                  FStr s \<Rightarrow>
                    if str_includes (toLowerCase key) ''id'' \<and> ObjectId_isValid rt s then FObjectId s
                    else v1
                | _ \<Rightarrow> v1);
          v3 = (case v of
                  FStr s \<Rightarrow>
                    if toLowerCase s = ''true'' then FBool True
                    else if toLowerCase s = ''false'' then FBool False
                    else v2
                | _ \<Rightarrow> v2)
      in if v = FNull then Inl TypeError
         else if typeof_object v \<and> truthy_prop v ''$regex''
         then Inr (FObj [(''$regex'', (case get_prop v ''$regex'' of Some x \<Rightarrow> x | None \<Rightarrow> FNull)),
                         (''$options'', (if truthy_prop v ''$options''
                                         then (case get_prop v ''$options'' of Some x \<Rightarrow> x | None \<Rightarrow> FNull)
                                         else FStr ''i''))])
         else Inr v3)"

fun special_entries :: "runtime \<Rightarrow> (string \<times> fval) list \<Rightarrow> js_error + (string \<times> fval) list" where
  "special_entries rt [] = Inr []"
| "special_entries rt ((key, v) # es) =
     (case special_value rt key v of
        Inl e \<Rightarrow> Inl e
      | Inr v' \<Rightarrow>
          (case special_entries rt es of
             Inl e \<Rightarrow> Inl e
           | Inr es' \<Rightarrow> Inr ((key, v') # es')))"

definition handleSpecialQueries :: "runtime \<Rightarrow> QueryParser \<Rightarrow> js_error + QueryParser" where
  "handleSpecialQueries rt qp =
     (case special_entries rt (mongoQuery qp) of
        Inl e \<Rightarrow> Inl e
      | Inr m \<Rightarrow>
          let m' = (case map_of (query qp) ''search'' of
                      None \<Rightarrow> m
                    | Some sv \<Rightarrow>
                        if truthy sv then AList.update ''$text'' (FObj [(''$search'', lift sv)]) m
                        else m)
          in Inr (handleDateRanges rt (qp\<lparr>mongoQuery := m'\<rparr>)))"

subsection \<open>filter\<close>

text \<open>
  The text steps of \<open>filter\<close>: the query without the excluded keys is written as JSON,
  the operator names in the text get their dollar sign, and the text is parsed again.
\<close>

definition translate_operators :: "(string \<times> json) list \<Rightarrow> js_error + json" where
  "translate_operators filteredQuery =
     (let queryStr = JSON_stringify (JObj filteredQuery);
          queryStr' = replace_operators False queryStr
      in JSON_parse queryStr')"

definition filter_qp :: "runtime \<Rightarrow> QueryParser \<Rightarrow> js_error + QueryParser" where
  "filter_qp rt qp =
     (let filteredQuery = foldl (\<lambda>q field. AList.delete field q) (query qp) (excludeFields qp)
      in case translate_operators filteredQuery of
           Inl e \<Rightarrow> Inl e
         | Inr (JObj m) \<Rightarrow>
             handleSpecialQueries rt (qp\<lparr>mongoQuery := map (\<lambda>(k, v). (k, lift v)) m\<rparr>)
         | Inr _ \<Rightarrow> Inl TypeError)"

definition strict_runtime :: runtime where
  "strict_runtime = \<lparr>date_fallback = (\<lambda>s. False), objectid_legacy = False\<rparr>"

subsection \<open>sort and select\<close>

text \<open>
  Both methods call \<^verbatim>\<open>split\<close> on the value of their key when it is truthy; on a value that
  is not a string the call throws a \<open>TypeError\<close>.
\<close>

definition sort_pair :: "(string \<times> int) list \<Rightarrow> string \<Rightarrow> (string \<times> int) list" where
  "sort_pair sortObj pair =
     (let parts = str_split CHR '':'' pair;
          field = (case parts of [] \<Rightarrow> [] | f # ds \<Rightarrow> f);
          direction = (case parts of f # d # ds \<Rightarrow> parseInt d | _ \<Rightarrow> None)
      in AList.update field (or_default direction 1) sortObj)"

definition sort_qp :: "QueryParser \<Rightarrow> js_error + QueryParser" where
  "sort_qp qp =
     (case map_of (query qp) ''sort'' of
        None \<Rightarrow> Inr (qp\<lparr>sortOptions := SortObj [(''createdAt'', - 1)]\<rparr>)
      | Some v \<Rightarrow>
          if \<not> truthy v then Inr (qp\<lparr>sortOptions := SortObj [(''createdAt'', - 1)]\<rparr>)
          else (case v of
                  JStr s \<Rightarrow>
                    let sortBy = str_join '' '' (str_split CHR '','' s) in
                    if str_includes sortBy '':''
                    then Inr (qp\<lparr>sortOptions :=
                                   SortObj (foldl sort_pair [] (str_split CHR '' '' sortBy))\<rparr>)
                    else Inr (qp\<lparr>sortOptions := SortStr sortBy\<rparr>)
                | _ \<Rightarrow> Inl TypeError))"

definition select_qp :: "QueryParser \<Rightarrow> js_error + QueryParser" where
  "select_qp qp =
     (case map_of (query qp) ''fields'' of
        None \<Rightarrow> Inr qp
      | Some v \<Rightarrow>
          if \<not> truthy v then Inr qp
          else (case v of
                  JStr s \<Rightarrow> Inr (qp\<lparr>selectFields := str_join '' '' (str_split CHR '','' s)\<rparr>)
                | _ \<Rightarrow> Inl TypeError))"

subsection \<open>The call chain of the services\<close>

text \<open>
  \<open>ProductService.getProducts\<close> and its siblings run
  \<^verbatim>\<open>createQueryParser(query).filter().sort().select().paginate().execute(Model)\<close>.
  An exception of any step ends the chain.
\<close>

definition getProducts ::
  "runtime \<Rightarrow> ('d, 's) Model \<Rightarrow> (string \<times> json) list \<Rightarrow> js_error + ('d, int) page_result option" where
  "getProducts rt M q =
     (case filter_qp rt (createQueryParser q None) of
        Inl e \<Rightarrow> Inl e
      | Inr qp1 \<Rightarrow>
          (case sort_qp qp1 of
             Inl e \<Rightarrow> Inl e
           | Inr qp2 \<Rightarrow>
               (case select_qp qp2 of
                  Inl e \<Rightarrow> Inl e
                | Inr qp3 \<Rightarrow> Inr (execute M (paginate qp3)))))"

section \<open>Sample collaborators and inputs\<close>

text \<open>
  Concrete models and queries on which the theorems below are instantiated: a collection
  of 12 documents; another that answers a find query with the query itself; one of 500
  documents whose find query answers with the skip and the
  limit it was given; and one whose count depends on the filter (40 documents, 7 of them
  matching any non-empty filter). No instance below has a page that is not an integer, so
  the answers of \<open>demo_doubles\<close> are never asked for.
\<close>

definition demo_model :: "(nat, unit) Model" where
  "demo_model = \<lparr>find_exec = (\<lambda>c. []), countDocuments = (\<lambda>f s. 12), aggregate_exec = (\<lambda>p s. [])\<rparr>"

definition demo_query :: "(string \<times> json) list" where
  "demo_query = [(''page'', JStr ''2''), (''limit'', JStr ''5''), (''status'', JStr ''active,pending'')]"

definition scenario_model :: "(find_call, unit) Model" where
  "scenario_model =
     \<lparr>find_exec = (\<lambda>c. [c]),
      countDocuments = (\<lambda>f s. 12),
      aggregate_exec = (\<lambda>p s. [])\<rparr>"

definition demo_doubles :: double_host where
  "demo_doubles = \<lparr>inexact_hasNext = (\<lambda>s l t. False), inexact_hasPrev = (\<lambda>s l. True)\<rparr>"

definition echo_model :: "(int \<times> int, unit) Model" where
  "echo_model =
     \<lparr>find_exec = (\<lambda>c. [(fc_skip c, fc_limit c)]),
      countDocuments = (\<lambda>f s. 500),
      aggregate_exec = (\<lambda>p s. [])\<rparr>"

definition counting_model :: "(nat, unit) Model" where
  "counting_model =
     \<lparr>find_exec = (\<lambda>c. []),
      countDocuments = (\<lambda>f s. if f = [] then 40 else 7),
      aggregate_exec = (\<lambda>p s. [])\<rparr>"

section \<open>Searching the pipeline\<close>

lemma find_append_case:
  "find P (xs @ ys) = (case find P xs of None \<Rightarrow> find P ys | Some x \<Rightarrow> Some x)"
  by (induction xs) auto

lemma find_none_iff: "(find P xs = None) = (\<forall>x\<in>set xs. \<not> P x)"
  by (induction xs) auto

lemma match_filter_first:
  assumes "\<forall>s\<in>set pre. match_prop s = None"
  shows "match_filter_or_empty (pre @ Match f # post) = f"
proof -
  have "find (\<lambda>p. match_prop p \<noteq> None) pre = None"
    using assms by (simp add: find_none_iff)
  then show ?thesis
    by (simp add: match_filter_or_empty_def find_match_def find_append_case)
qed

lemma match_filter_none:
  assumes "\<forall>s\<in>set pl. match_prop s = None"
  shows "match_filter_or_empty pl = []"
proof -
  have "find (\<lambda>p. match_prop p \<noteq> None) pl = None"
    using assms by (simp add: find_none_iff)
  then show ?thesis
    by (simp add: match_filter_or_empty_def find_match_def)
qed

lemma match_filter_append:
  assumes "\<forall>s\<in>set extra. match_prop s = None"
  shows "match_filter_or_empty (pl @ extra) = match_filter_or_empty pl"
proof -
  have "find (\<lambda>p. match_prop p \<noteq> None) extra = None"
    using assms by (simp add: find_none_iff)
  then show ?thesis
    by (simp add: match_filter_or_empty_def find_match_def find_append_case split: option.splits)
qed

lemma upb_exec_pagination:
  "ex_pagination (fst (upb_exec c True)) =
     Some (upb_pagination (upb_page c) (upb_limit c)
             (countDocuments (upb_model c) (match_filter_or_empty (upb_pipeline c)) (upb_session c)))"
proof -
  have "match_filter_or_empty (upb_pipeline c @ [Sort (upb_sort c)] @ [Skip ((upb_page c - 1) * upb_limit c), Limit (upb_limit c)])
        = match_filter_or_empty (upb_pipeline c)"
    by (rule match_filter_append) simp
  then show ?thesis
    by (simp add: upb_exec_def Let_def upb_push_def)
qed

lemma uqb_exec_total:
  "map_option total_count (ex_pagination (uqb_exec dh b True)) =
     Some (countDocuments (uqb_model b) (match_filter_or_empty (uqb_pipeline b)) (uqb_session b))"
  by (simp add: uqb_exec_def Let_def uqb_pagination_def uqb_countDocuments_def)

lemma upb_exec_total:
  "map_option total_count (ex_pagination (fst (upb_exec c True))) =
     Some (countDocuments (upb_model c) (match_filter_or_empty (upb_pipeline c)) (upb_session c))"
  by (simp add: upb_exec_pagination upb_pagination_def)

section \<open>Pagination arithmetic\<close>

lemma Math_ceil_quot_div:
  "Math_ceil_quot a b =
     (if b = 0 then (if 0 < a then PosInf else if a < 0 then NegInf else NaN)
      else Fin (- ((- a) div b)))"
  by (simp add: Math_ceil_quot_def ceiling_divide_eq_div)

lemma ceil_quot_real:
  "b \<noteq> 0 \<Longrightarrow> Math_ceil_quot a b = Fin \<lceil>real_of_int a / real_of_int b\<rceil>"
  by (simp add: Math_ceil_quot_def ceiling_divide_eq_div)

lemma less_ceil_quot:
  fixes p l t :: int
  assumes "1 \<le> l"
  shows "js_less p (Math_ceil_quot t l) = (p * l < t)"
proof -
  have pos: "0 < rat_of_int l" using assms by simp
  have "p < \<lceil>rat_of_int t / rat_of_int l\<rceil> \<longleftrightarrow> rat_of_int p < rat_of_int t / rat_of_int l"
    by (rule less_ceiling_iff)
  also have "\<dots> \<longleftrightarrow> rat_of_int p * rat_of_int l < rat_of_int t"
    using pos by (simp add: pos_less_divide_eq)
  also have "\<dots> \<longleftrightarrow> p * l < t"
    by (metis of_int_less_iff of_int_mult)
  finally show ?thesis using assms by (simp add: Math_ceil_quot_def)
qed

lemma qp_pagination_fields:
  fixes p l t :: int
  assumes "1 \<le> l"
  shows "qp_pagination p l t =
           \<lparr>page = p, limit = l, total_count = t,
            pages = Fin \<lceil>real_of_int t / real_of_int l\<rceil>,
            hasNext = (p * l < t), hasPrev = (1 < p)\<rparr>"
proof -
  have next_eq: "js_less p (Math_ceil_quot t l) = (p * l < t)"
    using assms by (rule less_ceil_quot)
  have pages_eq: "Math_ceil_quot t l = Fin \<lceil>real_of_int t / real_of_int l\<rceil>"
    using assms by (intro ceil_quot_real) simp
  show ?thesis
    by (simp only: qp_pagination_def next_eq) (simp only: pages_eq)
qed

lemma uqb_pagination_fields:
  fixes p l t :: int
  assumes "1 \<le> l"
  shows "uqb_pagination dh (Whole p) l t =
           \<lparr>page = Whole p, limit = l, total_count = t,
            pages = Fin \<lceil>real_of_int t / real_of_int l\<rceil>,
            hasNext = (p * l < t), hasPrev = (1 < p)\<rparr>"
  using assms by (simp add: uqb_pagination_def ceil_quot_real)

lemma upb_pagination_fields:
  fixes p l t :: int
  assumes "1 \<le> l"
  shows "upb_pagination p l t =
           \<lparr>page = p, limit = l, total_count = t,
            pages = Fin \<lceil>real_of_int t / real_of_int l\<rceil>,
            hasNext = (p * l < t), hasPrev = (1 < p)\<rparr>"
  using assms by (simp add: upb_pagination_def ceil_quot_real)

text \<open>
  Claim C1. Whenever the page is at least 1, the limit at least 1 and the count at least 0,
  the pagination object of \<open>QueryParser.execute\<close>, of \<open>UniversalQueryBuilder.exec\<close> and of
  \<open>UniversalPipelineBuilder.exec\<close> has \<open>pages\<close> equal to the quotient of total and limit
  rounded up, \<open>hasNext\<close> exactly when page times limit is below the total, and \<open>hasPrev\<close>
  exactly when the page is above 1. For \<open>QueryParser.execute\<close>, which compares the page
  with the number of pages, this is the equivalence of \<open>less_ceil_quot\<close>.
\<close>

theorem pagination_invariant:
  fixes p l t :: int
  assumes "1 \<le> p" and "1 \<le> l" and "0 \<le> t"
  shows
    "(paginationOptions qp = Some po \<and> po_page po = p \<and> po_limit po = l
        \<and> countDocuments M (mongoQuery qp) None = t
      \<longrightarrow> (\<exists>r. execute M qp = Some r \<and>
                pagination r =
                  \<lparr>page = p, limit = l, total_count = t,
                   pages = Fin \<lceil>real_of_int t / real_of_int l\<rceil>,
                   hasNext = (p * l < t), hasPrev = (1 < p)\<rparr>))
     \<and> (uqb_page (uqb_pipeline b) = Whole p \<and> uqb_limit (uqb_pipeline b) = l
        \<and> uqb_countDocuments b (match_filter_or_empty (uqb_pipeline b)) = t
      \<longrightarrow> ex_pagination (uqb_exec dh b True) =
            Some \<lparr>page = Whole p, limit = l, total_count = t,
                  pages = Fin \<lceil>real_of_int t / real_of_int l\<rceil>,
                  hasNext = (p * l < t), hasPrev = (1 < p)\<rparr>)
     \<and> (upb_page c = p \<and> upb_limit c = l
        \<and> countDocuments (upb_model c) (match_filter_or_empty (upb_pipeline c)) (upb_session c) = t
      \<longrightarrow> ex_pagination (fst (upb_exec c True)) =
            Some \<lparr>page = p, limit = l, total_count = t,
                  pages = Fin \<lceil>real_of_int t / real_of_int l\<rceil>,
                  hasNext = (p * l < t), hasPrev = (1 < p)\<rparr>)"
proof (intro conjI impI)
  assume h: "paginationOptions qp = Some po \<and> po_page po = p \<and> po_limit po = l
        \<and> countDocuments M (mongoQuery qp) None = t"
  then show "\<exists>r. execute M qp = Some r \<and>
                pagination r =
                  \<lparr>page = p, limit = l, total_count = t,
                   pages = Fin \<lceil>real_of_int t / real_of_int l\<rceil>,
                   hasNext = (p * l < t), hasPrev = (1 < p)\<rparr>"
    using qp_pagination_fields [OF assms(2), of p t]
    by (simp add: execute_def Let_def)
next
  assume "uqb_page (uqb_pipeline b) = Whole p \<and> uqb_limit (uqb_pipeline b) = l
        \<and> uqb_countDocuments b (match_filter_or_empty (uqb_pipeline b)) = t"
  then show "ex_pagination (uqb_exec dh b True) =
            Some \<lparr>page = Whole p, limit = l, total_count = t,
                  pages = Fin \<lceil>real_of_int t / real_of_int l\<rceil>,
                  hasNext = (p * l < t), hasPrev = (1 < p)\<rparr>"
    using uqb_pagination_fields [OF assms(2), of dh p t]
    by (simp add: uqb_exec_def Let_def)
next
  assume "upb_page c = p \<and> upb_limit c = l
        \<and> countDocuments (upb_model c) (match_filter_or_empty (upb_pipeline c)) (upb_session c) = t"
  then show "ex_pagination (fst (upb_exec c True)) =
            Some \<lparr>page = p, limit = l, total_count = t,
                  pages = Fin \<lceil>real_of_int t / real_of_int l\<rceil>,
                  hasNext = (p * l < t), hasPrev = (1 < p)\<rparr>"
    using upb_pagination_fields [OF assms(2), of p t]
    by (simp add: upb_exec_pagination)
qed

lemma demo_paginate:
  "paginationOptions (paginate (createQueryParser demo_query None)) =
     Some \<lparr>po_page = 2, po_limit = 5, po_skip = 5\<rparr>"
  by code_simp

lemma demo_uqb: "uqb_page (uqb_pipeline (uqb_paginate 2 5 (new_UniversalQueryBuilder demo_model))) = Whole 2"
  "uqb_limit (uqb_pipeline (uqb_paginate 2 5 (new_UniversalQueryBuilder demo_model))) = 5"
  by code_simp+

text \<open>
  The scenario of the specification: page 2 and limit 5 over 12 matching documents give
  3 pages, with a next and a previous page, in all three builders.
\<close>

theorem pagination_invariant_witness:
  "(\<exists>r. execute demo_model (paginate (createQueryParser demo_query None)) = Some r \<and>
        pagination r = \<lparr>page = 2, limit = 5, total_count = 12, pages = Fin 3,
                        hasNext = True, hasPrev = True\<rparr>)
   \<and> ex_pagination (uqb_exec demo_doubles (uqb_paginate 2 5 (new_UniversalQueryBuilder demo_model)) True) =
        Some \<lparr>page = Whole 2, limit = 5, total_count = 12, pages = Fin 3,
              hasNext = True, hasPrev = True\<rparr>
   \<and> ex_pagination (fst (upb_exec ((new_UniversalPipelineBuilder demo_model)\<lparr>upb_page := 2, upb_limit := 5\<rparr>) True)) =
        Some \<lparr>page = 2, limit = 5, total_count = 12, pages = Fin 3,
              hasNext = True, hasPrev = True\<rparr>"
proof -
  let ?qp = "paginate (createQueryParser demo_query None)"
  let ?b = "uqb_paginate 2 5 (new_UniversalQueryBuilder demo_model)"
  let ?c = "(new_UniversalPipelineBuilder demo_model)\<lparr>upb_page := 2, upb_limit := 5\<rparr>"
  have c3: "\<lceil>real_of_int 12 / real_of_int 5\<rceil> = 3"
    by (simp add: ceiling_divide_eq_div)
  have h1: "paginationOptions ?qp = Some \<lparr>po_page = 2, po_limit = 5, po_skip = 5\<rparr>
            \<and> po_page \<lparr>po_page = 2, po_limit = 5, po_skip = 5\<rparr> = 2
            \<and> po_limit \<lparr>po_page = 2, po_limit = 5, po_skip = 5\<rparr> = 5
            \<and> countDocuments demo_model (mongoQuery ?qp) None = 12"
    using demo_paginate by (simp add: demo_model_def)
  have h2: "uqb_page (uqb_pipeline ?b) = Whole 2 \<and> uqb_limit (uqb_pipeline ?b) = 5
            \<and> uqb_countDocuments ?b (match_filter_or_empty (uqb_pipeline ?b)) = 12"
    using demo_uqb
    by (simp add: uqb_countDocuments_def uqb_paginate_def uqb_push_def new_UniversalQueryBuilder_def demo_model_def)
  have h3: "upb_page ?c = 2 \<and> upb_limit ?c = 5
            \<and> countDocuments (upb_model ?c) (match_filter_or_empty (upb_pipeline ?c)) (upb_session ?c) = 12"
    by (simp add: new_UniversalPipelineBuilder_def demo_model_def)
  from pagination_invariant [where p = 2 and l = 5 and t = 12 and qp = ?qp
         and po = "\<lparr>po_page = 2, po_limit = 5, po_skip = 5\<rparr>" and M = demo_model
         and b = ?b and dh = demo_doubles and c = ?c]
    h1 h2 h3 c3
  show ?thesis by simp
qed

text \<open>
  The same scenario through the whole call chain: the request
  \<^verbatim>\<open>?page=2&limit=5&status=active,pending\<close> fetches with the in-clause on the status, the
  default sort, skip 5 and limit 5.
\<close>

lemma scenario_call_chain:
  "getProducts rt scenario_model demo_query =
     Inr (Some \<lparr>data = [\<lparr>fc_filter = [(''status'', FObj [(''$in'', FArr [FStr ''active'', FStr ''pending''])])],
                          fc_sort = Some (SortObj [(''createdAt'', - 1)]),
                          fc_select = None, fc_skip = 5, fc_limit = 5, fc_populate = []\<rparr>],
                pagination = \<lparr>page = 2, limit = 5, total_count = 12, pages = Fin 3,
                               hasNext = True, hasPrev = True\<rparr>\<rparr>)"
  by code_simp

text \<open>
  What \<open>paginate\<close> stores, for every query: the skip is computed from the limit before
  the clamp, so it is the skip of the stored limit exactly when the clamp changes nothing
  or the page is 1.
\<close>

lemma paginate_stores:
  "paginationOptions (paginate qp) =
     Some \<lparr>po_page = or_default (parseInt_field (query qp) ''page'') 1,
           po_limit = min (or_default (parseInt_field (query qp) ''limit'') 10) 100,
           po_skip = (or_default (parseInt_field (query qp) ''page'') 1 - 1)
                     * or_default (parseInt_field (query qp) ''limit'') 10\<rparr>"
  by (simp add: paginate_def Let_def)

lemma paginate_skip_of_stored_limit:
  assumes "paginationOptions (paginate qp) = Some po"
  shows "(po_skip po = (po_page po - 1) * po_limit po)
           = (or_default (parseInt_field (query qp) ''limit'') 10 \<le> 100 \<or> po_page po = 1)"
proof -
  let ?l = "or_default (parseInt_field (query qp) ''limit'') 10"
  let ?p = "or_default (parseInt_field (query qp) ''page'') 1"
  from assms have po: "po_page po = ?p" "po_limit po = min ?l 100" "po_skip po = (?p - 1) * ?l"
    by (auto simp add: paginate_stores)
  have "((?p - 1) * ?l = (?p - 1) * min ?l 100) = (?l \<le> 100 \<or> ?p = 1)"
    by (auto simp add: min_def)
  then show ?thesis by (simp only: po)
qed

text \<open>
  Claim C2. \<open>paginate\<close> computes the skip from the parsed limit before the limit is
  clamped: for page 2 and a requested limit of 200 the stored limit is 100 and the stored
  skip is 200, not \<open>(2 - 1) * 100\<close>, and \<open>execute\<close> fetches with skip 200 and limit 100.
\<close>

theorem paginate_skip_from_raw_limit:
  "paginationOptions (paginate (createQueryParser [(''page'', JStr ''2''), (''limit'', JStr ''200'')] None))
     = Some \<lparr>po_page = 2, po_limit = 100, po_skip = 200\<rparr>
   \<and> map_option data
         (execute echo_model
            (paginate (createQueryParser [(''page'', JStr ''2''), (''limit'', JStr ''200'')] None)))
     = Some [(200, 100)]"
  by code_simp




section \<open>Aggregation builders\<close>

text \<open>
  Claim C5. With pagination, the total reported by either aggregation builder is the
  collaborator's count under the filter of the first \<open>Match\<close> stage of the pipeline, and
  under the empty filter when the pipeline has no \<open>Match\<close> stage. Stages appended to the
  pipeline that are not \<open>Match\<close> stages (joins, computed fields, projections, sorts) leave
  the reported total as it was.
\<close>

theorem aggregation_total_first_match:
  assumes "\<forall>s\<in>set pre. match_prop s = None"
    and "\<forall>s\<in>set extra. match_prop s = None"
  shows
    "(uqb_pipeline b = pre @ Match f # post \<longrightarrow>
        map_option total_count (ex_pagination (uqb_exec dh b True))
          = Some (countDocuments (uqb_model b) f (uqb_session b)))
     \<and> (uqb_pipeline b = pre \<longrightarrow>
        map_option total_count (ex_pagination (uqb_exec dh b True))
          = Some (countDocuments (uqb_model b) [] (uqb_session b)))
     \<and> map_option total_count (ex_pagination (uqb_exec dh (uqb_push extra b) True))
          = map_option total_count (ex_pagination (uqb_exec dh b True))
     \<and> (upb_pipeline c = pre @ Match f # post \<longrightarrow>
        map_option total_count (ex_pagination (fst (upb_exec c True)))
          = Some (countDocuments (upb_model c) f (upb_session c)))
     \<and> (upb_pipeline c = pre \<longrightarrow>
        map_option total_count (ex_pagination (fst (upb_exec c True)))
          = Some (countDocuments (upb_model c) [] (upb_session c)))
     \<and> map_option total_count (ex_pagination (fst (upb_exec (upb_push extra c) True)))
          = map_option total_count (ex_pagination (fst (upb_exec c True)))"
proof (intro conjI impI)
  assume "uqb_pipeline b = pre @ Match f # post"
  then show "map_option total_count (ex_pagination (uqb_exec dh b True))
          = Some (countDocuments (uqb_model b) f (uqb_session b))"
    using match_filter_first [OF assms(1)] by (simp add: uqb_exec_total)
next
  assume "uqb_pipeline b = pre"
  then show "map_option total_count (ex_pagination (uqb_exec dh b True))
          = Some (countDocuments (uqb_model b) [] (uqb_session b))"
    using match_filter_none [OF assms(1)] by (simp add: uqb_exec_total)
next
  show "map_option total_count (ex_pagination (uqb_exec dh (uqb_push extra b) True))
          = map_option total_count (ex_pagination (uqb_exec dh b True))"
    using match_filter_append [OF assms(2)] by (simp add: uqb_exec_total uqb_push_def)
next
  assume "upb_pipeline c = pre @ Match f # post"
  then show "map_option total_count (ex_pagination (fst (upb_exec c True)))
          = Some (countDocuments (upb_model c) f (upb_session c))"
    using match_filter_first [OF assms(1)] by (simp add: upb_exec_total)
next
  assume "upb_pipeline c = pre"
  then show "map_option total_count (ex_pagination (fst (upb_exec c True)))
          = Some (countDocuments (upb_model c) [] (upb_session c))"
    using match_filter_none [OF assms(1)] by (simp add: upb_exec_total)
next
  show "map_option total_count (ex_pagination (fst (upb_exec (upb_push extra c) True)))
          = map_option total_count (ex_pagination (fst (upb_exec c True)))"
    using match_filter_append [OF assms(2)] by (simp add: upb_exec_total upb_push_def)
qed

text \<open>
  A pipeline with a join before the first match and a second match after it counts under
  the first filter (7 documents); a pipeline with no match counts everything (40); a
  projection and a sort appended afterwards change nothing.
\<close>

theorem aggregation_total_first_match_witness:
  "map_option total_count
     (ex_pagination (uqb_exec demo_doubles (uqb_push [Lookup FNull, Match [(''status'', FStr ''active'')], Match []]
                                 (new_UniversalQueryBuilder counting_model)) True)) = Some 7
   \<and> map_option total_count
     (ex_pagination (uqb_exec demo_doubles (uqb_push [Lookup FNull] (new_UniversalQueryBuilder counting_model)) True)) = Some 40
   \<and> map_option total_count
     (ex_pagination (uqb_exec demo_doubles (uqb_push [Project [(''name'', FNum 1)], Sort [(''name'', FNum 1)]]
        (uqb_push [Lookup FNull, Match [(''status'', FStr ''active'')], Match []]
                                 (new_UniversalQueryBuilder counting_model))) True)) = Some 7
   \<and> map_option total_count
     (ex_pagination (fst (upb_exec (upb_push [Lookup FNull, Match [(''status'', FStr ''active'')], Match []]
                                 (new_UniversalPipelineBuilder counting_model)) True))) = Some 7
   \<and> map_option total_count
     (ex_pagination (fst (upb_exec (upb_push [Lookup FNull] (new_UniversalPipelineBuilder counting_model)) True))) = Some 40
   \<and> map_option total_count
     (ex_pagination (fst (upb_exec (upb_push [Project [(''name'', FNum 1)], Sort [(''name'', FNum 1)]]
        (upb_push [Lookup FNull, Match [(''status'', FStr ''active'')], Match []]
                                 (new_UniversalPipelineBuilder counting_model))) True))) = Some 7"
proof -
  let ?pre = "[Lookup FNull]"
  let ?f = "[(''status'', FStr ''active'')]"
  let ?post = "[Match []]"
  let ?extra = "[Project [(''name'', FNum 1)], Sort [(''name'', FNum 1)]]"
  let ?b = "uqb_push [Lookup FNull, Match ?f, Match []] (new_UniversalQueryBuilder counting_model)"
  let ?c = "upb_push [Lookup FNull, Match ?f, Match []] (new_UniversalPipelineBuilder counting_model)"
  let ?bb = "uqb_push [Lookup FNull] (new_UniversalQueryBuilder counting_model)"
  let ?cc = "upb_push [Lookup FNull] (new_UniversalPipelineBuilder counting_model)"
  have pre: "\<forall>s\<in>set ?pre. match_prop s = None" by simp
  have extra: "\<forall>s\<in>set ?extra. match_prop s = None" by simp
  have pb: "uqb_pipeline ?b = ?pre @ Match ?f # ?post"
    and pc: "upb_pipeline ?c = ?pre @ Match ?f # ?post"
    and pb0: "uqb_pipeline ?bb = ?pre"
    and pc0: "upb_pipeline ?cc = ?pre"
    by (simp_all add: uqb_push_def upb_push_def new_UniversalQueryBuilder_def new_UniversalPipelineBuilder_def)
  have cnt: "countDocuments (uqb_model ?b) ?f (uqb_session ?b) = 7"
    "countDocuments (upb_model ?c) ?f (upb_session ?c) = 7"
    "countDocuments (uqb_model ?bb) [] (uqb_session ?bb) = 40"
    "countDocuments (upb_model ?cc) [] (upb_session ?cc) = 40"
    by (simp_all add: uqb_push_def upb_push_def new_UniversalQueryBuilder_def
          new_UniversalPipelineBuilder_def counting_model_def)
  from aggregation_total_first_match [OF pre extra, where b = ?b and f = ?f and post = ?post
         and c = ?c and dh = demo_doubles] pb pc cnt
  have w1: "map_option total_count (ex_pagination (uqb_exec demo_doubles ?b True)) = Some 7"
    and w3: "map_option total_count (ex_pagination (uqb_exec demo_doubles (uqb_push ?extra ?b) True)) = Some 7"
    and w4: "map_option total_count (ex_pagination (fst (upb_exec ?c True))) = Some 7"
    and w6: "map_option total_count (ex_pagination (fst (upb_exec (upb_push ?extra ?c) True))) = Some 7"
    by simp_all
  from aggregation_total_first_match [OF pre extra, where b = ?bb and f = ?f and post = ?post
         and c = ?cc and dh = demo_doubles] pb0 pc0 cnt
  have w2: "map_option total_count (ex_pagination (uqb_exec demo_doubles ?bb True)) = Some 40"
    and w5: "map_option total_count (ex_pagination (fst (upb_exec ?cc True))) = Some 40"
    by simp_all
  from w1 w2 w3 w4 w5 w6 show ?thesis by blast
qed



text \<open>
  A \<open>Limit\<close> stage added by hand before \<open>paginate 2 10\<close> has the same effect; the page is
  then the quotient of 10 and 50 plus 1, which is not an integer.
\<close>

lemma uqb_exec_added_limit:
  "uqb_page (uqb_pipeline (uqb_paginate 2 10 (uqb_addStage (Limit 50) (new_UniversalQueryBuilder M))))
     = Inexact 10 50"
  "uqb_limit (uqb_pipeline (uqb_paginate 2 10 (uqb_addStage (Limit 50) (new_UniversalQueryBuilder M))))
     = 50"
  by code_simp+



section \<open>The filter of QueryParser\<close>

subsection \<open>The text steps\<close>

lemma replace_brace:
  "replace_operators False (CHR ''{'' # cs) = CHR ''{'' # replace_operators False cs"
proof -
  have "\<not> is_word CHR ''{''" by code_simp
  then show ?thesis
    by (simp add: match_operator_def boundary_def)
qed

lemma lex_brace: "lex (CHR ''{'' # cs) = map_option (Cons TLBrace) (lex cs)"
  by simp

lemma stringify_object_brace: "\<exists>cs. JSON_stringify (JObj q) = CHR ''{'' # cs"
  by simp

lemma deliver_outer:
  "st \<noteq> [] \<Longrightarrow> obj_ctx (last st) \<Longrightarrow> outer_object (deliver v st)"
  by (cases "(v, st)" rule: deliver.cases) (auto split: if_splits)

lemma deliver_object_outer:
  "st = [] \<or> obj_ctx (last st) \<Longrightarrow> outer_object (deliver (JObj m) st)"
  by (cases "(JObj m, st)" rule: deliver.cases) (auto split: if_splits)

lemma value_step_outer:
  "st \<noteq> [] \<Longrightarrow> obj_ctx (last st) \<Longrightarrow> value_step st t = Some s' \<Longrightarrow> outer_object s'"
  by (auto simp add: value_step_def deliver_outer split: if_splits)

lemma step_outer:
  "outer_object s \<Longrightarrow> step s t = Some s' \<Longrightarrow> outer_object s'"
proof (induction s t rule: step.induct)
  case (1 st t)
  then show ?case by (auto intro: value_step_outer)
next
  case (2 st t)
  then show ?case
    by (auto simp add: deliver_outer split: if_splits intro: value_step_outer [of "InArr [] # st"])
next
  case (3 acc st t)
  then show ?case by (auto simp add: deliver_outer split: if_splits)
next
  case (4 st t)
  then show ?case by (cases t) (auto simp add: deliver_object_outer)
next
  case (5 acc st t)
  then show ?case by (cases t) auto
next
  case (6 acc k st t)
  then show ?case by (auto split: if_splits)
next
  case (7 acc st t)
  then show ?case by (auto simp add: make_object_def deliver_object_outer split: if_splits)
next
  case (8 v t)
  then show ?case by simp
qed

lemma run_outer:
  "outer_object s \<Longrightarrow> run s ts = Some s' \<Longrightarrow> outer_object s'"
  by (induction ts arbitrary: s) (auto split: option.splits dest: step_outer)

text \<open>
  When the text steps of \<open>filter\<close> return, they return an object: the text of an object
  starts with a brace, the replacement keeps the brace, and the machine, once inside the
  outermost object, can only finish with it. The last branch of \<open>filter_qp\<close> is never
  taken.
\<close>

lemma translate_operators_object:
  assumes "translate_operators q = Inr v"
  shows "\<exists>m. v = JObj m"
proof -
  obtain cs0 where "JSON_stringify (JObj q) = CHR ''{'' # cs0"
    using stringify_object_brace by blast
  then have tx: "replace_operators False (JSON_stringify (JObj q))
                     = CHR ''{'' # replace_operators False cs0"
    by (simp only: replace_brace)
  define cs where "cs = replace_operators False cs0"
  from assms have parsed: "JSON_parse (CHR ''{'' # cs) = Inr v"
    by (simp only: translate_operators_def Let_def tx cs_def)
  show ?thesis
  proof (cases "lex cs")
    case None
    then have "JSON_parse (CHR ''{'' # cs) = Inl SyntaxError"
      by (simp only: JSON_parse_def lex_brace) simp
    with parsed show ?thesis by simp
  next
    case (Some ts)
    then have lx: "lex (CHR ''{'' # cs) = Some (TLBrace # ts)"
      by (simp only: lex_brace) simp
    have jp: "JSON_parse (CHR ''{'' # cs) =
                (case run (ObjFirst []) ts of
                   Some (Done v) \<Rightarrow> Inr v
                 | _ \<Rightarrow> Inl SyntaxError)"
      unfolding JSON_parse_def lx by (simp add: value_step_def)
    show ?thesis
    proof (cases "run (ObjFirst []) ts")
      case None
      with jp parsed show ?thesis by simp
    next
      case (Some s')
      have init: "outer_object (ObjFirst [])" by simp
      from run_outer [OF init Some] have out: "outer_object s'" .
      from parsed jp Some have "s' = Done v"
        by (simp split: pstate.splits)
      with out show ?thesis by (cases v) simp_all
    qed
  qed
qed

subsection \<open>Reserved keys\<close>

lemma delete_fold_keeps_absent:
  "map_of q k = None \<Longrightarrow> map_of (foldl (\<lambda>q field. AList.delete field q) q excl) k = None"
  by (induction excl arbitrary: q) (simp_all add: delete_conv')

text \<open>A key of the exclusion list is not in the mapping that is written as text.\<close>

lemma excluded_key_deleted:
  "k \<in> set excl \<Longrightarrow> map_of (foldl (\<lambda>q field. AList.delete field q) q excl) k = None"
proof (induction excl arbitrary: q)
  case Nil
  then show ?case by simp
next
  case (Cons f excl)
  show ?case
  proof (cases "k = f")
    case True
    then show ?thesis
      using delete_fold_keeps_absent [of "AList.delete f q" k excl] by (simp add: delete_conv')
  next
    case False
    with Cons show ?thesis by simp
  qed
qed

text \<open>The default exclusion list of the constructor has four keys; \<open>search\<close> is not one.\<close>

lemma search_not_excluded: "''search'' \<notin> set default_excludeFields"
  by (simp add: default_excludeFields_def)

text \<open>
  Claim C3. The keys \<open>page\<close>, \<open>limit\<close>, \<open>sort\<close> and \<open>fields\<close> are removed before the
  translation, but \<open>search\<close> is not: for the request
  \<^verbatim>\<open>?page=2&limit=5&sort=name&fields=name,price&search=phone\<close> the filter holds the
  full-text predicate and, beside it, an equality predicate on a field named \<open>search\<close>.
\<close>

theorem search_key_stays_in_filter:
  "map_sum id mongoQuery
     (filter_qp rt (createQueryParser
        [(''page'', JStr ''2''), (''limit'', JStr ''5''), (''sort'', JStr ''name''),
         (''fields'', JStr ''name,price''), (''search'', JStr ''phone'')] None))
     = Inr [(''search'', FStr ''phone''), (''$text'', FObj [(''$search'', FStr ''phone'')])]"
  by code_simp

subsection \<open>The operator replacement\<close>

text \<open>
  Claim C9. The replacement works on the text of the whole query, so a standalone
  operator name gets its dollar sign wherever it stands: in the string value
  \<^verbatim>\<open>log in now\<close>, in the field name \<^verbatim>\<open>check in\<close>, and in the keys of an operator
  mapping, where it is meant to.
\<close>

theorem operator_replacement_is_textual:
  "map_sum id mongoQuery (filter_qp rt (createQueryParser [(''status'', JStr ''log in now'')] None))
     = Inr [(''status'', FStr ''log $in now'')]
   \<and> map_sum id mongoQuery (filter_qp rt (createQueryParser [(''check in'', JStr ''x'')] None))
     = Inr [(''check $in'', FStr ''x'')]
   \<and> map_sum id mongoQuery
       (filter_qp rt (createQueryParser [(''price'', JObj [(''gte'', JNum 10), (''lte'', JNum 20)])] None))
     = Inr [(''price'', FObj [(''$gte'', FNum 10), (''$lte'', FNum 20)])]"
  by code_simp

text \<open>
  The replacement can also break the text: a line feed is written as \<^verbatim>\<open>\n\<close>, and with an
  \<^verbatim>\<open>e\<close> behind it the text reads \<^verbatim>\<open>\ne\<close>, in which \<^verbatim>\<open>ne\<close> is a word of its own.
  The dollar sign lands behind the backslash and \<^verbatim>\<open>JSON.parse\<close> throws.
\<close>

lemma replacement_breaks_escape:
  "map_sum id mongoQuery
     (filter_qp rt (createQueryParser [(''note'', JStr [CHR ''x'', CHR 0x0A, CHR ''e''])] None))
     = Inl SyntaxError"
  by code_simp

subsection \<open>Comma-separated values\<close>

lemma toLowerCase_length: "length (toLowerCase s) = length s"
  by (simp add: toLowerCase_def)

text \<open>The four rules of \<open>handleSpecialQueries\<close> on a string, with the later rule first.\<close>

lemma special_value_string:
  "special_value rt key (FStr s) =
     Inr (if toLowerCase s = ''true'' then FBool True
          else if toLowerCase s = ''false'' then FBool False
          else if str_includes (toLowerCase key) ''id'' \<and> ObjectId_isValid rt s then FObjectId s
          else if str_includes s '','' then FObj [(''$in'', FArr (map FStr (str_split CHR '','' s)))]
          else FStr s)"
  by (simp add: special_value_def)

lemma comma_list_example:
  "map_sum id mongoQuery (filter_qp rt (createQueryParser [(''category'', JStr ''a,b,c'')] None))
     = Inr [(''category'', FObj [(''$in'', FArr [FStr ''a'', FStr ''b'', FStr ''c''])])]"
  by code_simp

text \<open>
  Claim C8. A comma-separated value becomes an in-clause, but over the parts of the text
  after the operator replacement: for \<^verbatim>\<open>?availability=in stock,sold out\<close> the first
  member of the set is \<^verbatim>\<open>$in stock\<close>, which is not a part of the value that was sent.
\<close>

theorem comma_parts_rewritten:
  "map_sum id mongoQuery
     (filter_qp rt (createQueryParser [(''availability'', JStr ''in stock,sold out'')] None))
     = Inr [(''availability'', FObj [(''$in'', FArr [FStr ''$in stock'', FStr ''sold out''])])]"
  by code_simp

subsection \<open>Dates\<close>

lemma digit_not_T: "is_digit c \<Longrightarrow> c \<noteq> CHR ''T'' \<and> c \<noteq> CHR ''+'' \<and> c \<noteq> CHR ''-''"
proof -
  have "\<not> is_digit CHR ''T''" "\<not> is_digit CHR ''+''" "\<not> is_digit CHR ''-''" by code_simp+
  then show "is_digit c \<Longrightarrow> c \<noteq> CHR ''T'' \<and> c \<noteq> CHR ''+'' \<and> c \<noteq> CHR ''-''" by auto
qed

text \<open>Signed years outside the range of \<^verbatim>\<open>Date\<close> are not in the shared part.\<close>

lemma expanded_year_examples:
  "\<not> iso_date_time ''+999999''"
  "\<not> iso_date_time ''+275760-01-01''"
  "iso_date_time ''+275759-12-31''"
  "iso_date_time ''+002023-01-01''"
  "iso_date_time ''-271820-01-01''"
  "\<not> iso_date_time ''-000000''"
  by code_simp+

text \<open>Every string of four digits is a year, and so a valid date, on every host.\<close>

lemma four_digit_year_valid:
  assumes "length s = 4" and "list_all is_digit s"
  shows "isValidDate rt s"
proof -
  from assms(1) obtain a b c d where s: "s = [a, b, c, d]"
    by (auto simp add: numeral_eq_Suc length_Suc_conv)
  with assms(2) have dg: "is_digit a" "is_digit b" "is_digit c" "is_digit d" by simp_all
  have noT: "dropWhile (\<lambda>c. c \<noteq> CHR ''T'') s = []"
    using dg digit_not_T by (simp add: s)
  have "iso_date s"
    using dg digit_not_T [of a] by (simp add: iso_date_def s Let_def)
  then show ?thesis
    by (simp add: isValidDate_def iso_date_time_def noT)
qed

lemma map_of_map_values:
  "map_of (map (\<lambda>(k, v). (k, f v)) m) key = map_option f (map_of m key)"
  by (induction m) auto

text \<open>
  What \<open>handleDateRanges\<close> does to a string under a range operator: it becomes a date
  exactly when \<open>isValidDate\<close> accepts it, and stays as it is otherwise.
\<close>

lemma date_range_clause:
  assumes "distinct (map fst (mongoQuery qp))" and "(key, FObj ops) \<in> set (mongoQuery qp)"
    and "distinct (map fst ops)" and "(operator, FStr s) \<in> set ops"
    and "operator \<in> set range_operators"
  shows "\<exists>ops'. map_of (mongoQuery (handleDateRanges rt qp)) key = Some (FObj ops')
           \<and> map_of ops' operator = Some (if isValidDate rt s then FDate s else FStr s)"
proof -
  let ?f = "\<lambda>dateValue. case dateValue of
                                FStr s \<Rightarrow> if isValidDate rt s then FDate s else dateValue
                              | _ \<Rightarrow> dateValue"
  let ?g = "\<lambda>(op, x). (op, if op \<in> set range_operators then ?f x else x)"
  have 1: "map_of (mongoQuery qp) key = Some (FObj ops)" using assms(1,2) by simp
  have 2: "map_of ops operator = Some (FStr s)" using assms(3,4) by simp
  have "map_of (map ?g ops) k = map_option (\<lambda>x. if k \<in> set range_operators then ?f x else x) (map_of ops k)" for k
    by (induction ops) (auto split: fval.splits)
  then have 3: "map_of (map ?g ops) operator = Some (if isValidDate rt s then FDate s else FStr s)"
    using 2 assms(5) by simp
  have "map_of (mongoQuery (handleDateRanges rt qp)) key = Some (FObj (map ?g ops))"
    using 1 by (simp add: handleDateRanges_def map_of_map_values date_range_value_def)
  with 3 show ?thesis by blast
qed

lemma date_bound_example:
  "map_sum id mongoQuery
     (filter_qp rt (createQueryParser [(''createdAt'', JObj [(''gte'', JStr ''2023-01-01'')])] None))
     = Inr [(''createdAt'', FObj [(''$gte'', FDate ''2023-01-01'')])]"
  by code_simp

text \<open>
  Claim C6. A numeric bound that arrives as a string of four digits is a date string (a
  year) and is turned into a date: for \<^verbatim>\<open>?price[gte]=2000\<close> the price is compared with
  the first instant of the year 2000.
\<close>

theorem numeric_bound_becomes_date:
  "map_sum id mongoQuery
     (filter_qp rt (createQueryParser [(''price'', JObj [(''gte'', JStr ''2000'')])] None))
     = Inr [(''price'', FObj [(''$gte'', FDate ''2000'')])]"
  by code_simp

subsection \<open>Identifiers\<close>

lemma valid_id_not_boolean:
  assumes "ObjectId_isValid rt s"
  shows "toLowerCase s \<noteq> ''true'' \<and> toLowerCase s \<noteq> ''false''"
proof -
  have "length s = 24 \<or> length s = 12"
    using assms by (auto simp add: ObjectId_isValid_def)
  then have "length (toLowerCase s) \<noteq> 4 \<and> length (toLowerCase s) \<noteq> 5"
    by (auto simp add: toLowerCase_length)
  then show ?thesis by auto
qed

lemma special_value_error: "(special_value rt key v = Inl e) = (v = FNull \<and> e = TypeError)"
  by (auto simp add: special_value_def Let_def)

text \<open>Without a \<^verbatim>\<open>null\<close> among the values the loop runs to its end and keeps the keys.\<close>

lemma special_entries_total:
  assumes "FNull \<notin> snd ` set m"
  shows "\<exists>m'. special_entries rt m = Inr m' \<and> map fst m' = map fst m
           \<and> (\<forall>k v x. (k, v) \<in> set m \<and> special_value rt k v = Inr x \<longrightarrow> (k, x) \<in> set m')"
  using assms
proof (induction m)
  case Nil
  then show ?case by simp
next
  case (Cons kv m)
  obtain k v where kv: "kv = (k, v)" by (cases kv)
  from Cons.prems kv have "v \<noteq> FNull" and rest: "FNull \<notin> snd ` set m" by auto
  then obtain x where x: "special_value rt k v = Inr x"
    using special_value_error [of rt k v] by (cases "special_value rt k v") auto
  from Cons.IH [OF rest] obtain m' where m': "special_entries rt m = Inr m'"
    "map fst m' = map fst m"
    "\<forall>k v x. (k, v) \<in> set m \<and> special_value rt k v = Inr x \<longrightarrow> (k, x) \<in> set m'"
    by blast
  show ?case
    using kv x m' by auto
qed

lemma map_of_unique_entry:
  assumes "distinct (map fst m)" and "(k, x) \<in> set m"
  shows "map_of m k = Some x"
  using assms by simp

lemma date_range_value_plain:
  "date_range_value rt (FStr s) = FStr s"
  "date_range_value rt (FBool b) = FBool b"
  "date_range_value rt (FObjectId s) = FObjectId s"
  "date_range_value rt (FObj [(''$in'', x)]) = FObj [(''$in'', x)]"
  by (simp_all add: date_range_value_def range_operators_def)

lemma text_key_not_id: "\<not> str_includes (toLowerCase ''$text'') ''id''"
  by code_simp

text \<open>
  Claim C7, as stated, fails on an identifier field whose value is not a well-formed
  identifier but holds a comma: \<^verbatim>\<open>?userId=a,b\<close> is not left as a string, it becomes an
  in-clause.
\<close>

theorem identifier_comma_counterexample:
  "map_sum id mongoQuery (filter_qp strict_runtime (createQueryParser [(''userId'', JStr ''a,b'')] None))
     = Inr [(''userId'', FObj [(''$in'', FArr [FStr ''a'', FStr ''b''])])]"
  by code_simp

text \<open>
  Claim C7, amended. In the mapping that \<open>handleSpecialQueries\<close> works on, take a field
  whose lower-cased name contains \<^verbatim>\<open>id\<close> and whose value is a string. If the string is a
  well-formed identifier, the value becomes the native identifier. If it is not, the
  value becomes a boolean when it reads \<^verbatim>\<open>true\<close> or \<^verbatim>\<open>false\<close> in any letter case, an
  in-clause over its parts when it holds a comma, and stays the same string in every other
  case. No error is raised, provided that no value of the mapping is \<^verbatim>\<open>null\<close>.
\<close>

theorem identifier_coercion:
  assumes "distinct (map fst (mongoQuery qp))"
    and "(key, FStr s) \<in> set (mongoQuery qp)"
    and "str_includes (toLowerCase key) ''id''"
    and "FNull \<notin> snd ` set (mongoQuery qp)"
  shows "\<exists>qp'. handleSpecialQueries rt qp = Inr qp' \<and>
           map_of (mongoQuery qp') key =
             Some (if ObjectId_isValid rt s then FObjectId s
                   else if toLowerCase s = ''true'' then FBool True
                   else if toLowerCase s = ''false'' then FBool False
                   else if str_includes s '','' then FObj [(''$in'', FArr (map FStr (str_split CHR '','' s)))]
                   else FStr s)"
proof -
  let ?r = "if ObjectId_isValid rt s then FObjectId s
            else if toLowerCase s = ''true'' then FBool True
            else if toLowerCase s = ''false'' then FBool False
            else if str_includes s '','' then FObj [(''$in'', FArr (map FStr (str_split CHR '','' s)))]
            else FStr s"
  have sv: "special_value rt key (FStr s) = Inr ?r"
    using assms(3) valid_id_not_boolean [of rt s] by (auto simp add: special_value_string)
  from special_entries_total [OF assms(4), of rt]
  obtain m where m: "special_entries rt (mongoQuery qp) = Inr m"
    "map fst m = map fst (mongoQuery qp)"
    "\<forall>k v x. (k, v) \<in> set (mongoQuery qp) \<and> special_value rt k v = Inr x \<longrightarrow> (k, x) \<in> set m"
    by blast
  from m(3) assms(2) sv have "(key, ?r) \<in> set m" by blast
  moreover have "distinct (map fst m)" using m(2) assms(1) by simp
  ultimately have look: "map_of m key = Some ?r" by (rule map_of_unique_entry [rotated])
  have key: "key \<noteq> ''$text''"
    using assms(3) text_key_not_id by auto
  define m' where "m' = (case map_of (query qp) ''search'' of
                      None \<Rightarrow> m
                    | Some sv \<Rightarrow>
                        if truthy sv then AList.update ''$text'' (FObj [(''$search'', lift sv)]) m
                        else m)"
  have look': "map_of m' key = Some ?r"
    using look key by (simp add: m'_def update_conv' split: option.splits)
  have dr: "date_range_value rt ?r = ?r"
    by (simp add: date_range_value_plain)
  have res: "handleSpecialQueries rt qp = Inr (handleDateRanges rt (qp\<lparr>mongoQuery := m'\<rparr>))"
    by (simp add: handleSpecialQueries_def m(1) m'_def Let_def)
  have "map_of (mongoQuery (handleDateRanges rt (qp\<lparr>mongoQuery := m'\<rparr>))) key = Some ?r"
    using look' dr by (simp add: handleDateRanges_def map_of_map_values)
  with res show ?thesis by blast
qed

text \<open>
  The example of the specification: \<^verbatim>\<open>507f1f77bcf86cd799439011\<close> is coerced and
  \<^verbatim>\<open>not-an-id\<close> stays a string.
\<close>

theorem identifier_coercion_witness:
  "(\<exists>qp'. handleSpecialQueries strict_runtime
             ((createQueryParser [] None)\<lparr>mongoQuery :=
                 [(''userId'', FStr ''507f1f77bcf86cd799439011''), (''status'', FStr ''active'')]\<rparr>) = Inr qp'
          \<and> map_of (mongoQuery qp') ''userId'' = Some (FObjectId ''507f1f77bcf86cd799439011''))
   \<and> (\<exists>qp'. handleSpecialQueries strict_runtime
             ((createQueryParser [] None)\<lparr>mongoQuery :=
                 [(''userId'', FStr ''not-an-id''), (''status'', FStr ''active'')]\<rparr>) = Inr qp'
          \<and> map_of (mongoQuery qp') ''userId'' = Some (FStr ''not-an-id''))"
proof -
  let ?good = "''507f1f77bcf86cd799439011''"
  let ?bad = "''not-an-id''"
  let ?q1 = "(createQueryParser [] None)\<lparr>mongoQuery := [(''userId'', FStr ?good), (''status'', FStr ''active'')]\<rparr>"
  let ?q2 = "(createQueryParser [] None)\<lparr>mongoQuery := [(''userId'', FStr ?bad), (''status'', FStr ''active'')]\<rparr>"
  have idkey: "str_includes (toLowerCase ''userId'') ''id''" by code_simp
  have valid: "ObjectId_isValid strict_runtime ?good" by code_simp
  have invalid: "\<not> ObjectId_isValid strict_runtime ?bad"
    "toLowerCase ?bad \<noteq> ''true''" "toLowerCase ?bad \<noteq> ''false''" "\<not> str_includes ?bad '',''"
    by code_simp+
  have d1: "distinct (map fst (mongoQuery ?q1))" and d2: "distinct (map fst (mongoQuery ?q2))"
    by simp_all
  have in1: "(''userId'', FStr ?good) \<in> set (mongoQuery ?q1)"
    and in2: "(''userId'', FStr ?bad) \<in> set (mongoQuery ?q2)"
    by simp_all
  have n1: "FNull \<notin> snd ` set (mongoQuery ?q1)" and n2: "FNull \<notin> snd ` set (mongoQuery ?q2)"
    by simp_all
  from identifier_coercion [OF d1 in1 idkey n1, of strict_runtime] valid
  have w1: "\<exists>qp'. handleSpecialQueries strict_runtime ?q1 = Inr qp'
              \<and> map_of (mongoQuery qp') ''userId'' = Some (FObjectId ?good)"
    by simp
  from identifier_coercion [OF d2 in2 idkey n2, of strict_runtime] invalid
  have w2: "\<exists>qp'. handleSpecialQueries strict_runtime ?q2 = Inr qp'
              \<and> map_of (mongoQuery qp') ''userId'' = Some (FStr ?bad)"
    by simp
  from w1 w2 show ?thesis by blast
qed

lemma identifier_examples:
  "map_sum id mongoQuery
     (filter_qp rt (createQueryParser [(''userId'', JStr ''507f1f77bcf86cd799439011'')] None))
     = Inr [(''userId'', FObjectId ''507f1f77bcf86cd799439011'')]"
  "map_sum id mongoQuery (filter_qp rt (createQueryParser [(''userId'', JStr ''not-an-id'')] None))
     = Inr [(''userId'', FStr ''not-an-id'')]"
  by code_simp+

end
